theory Spec2Isabelle
  imports Complex_Main "HOL-Library.List_Lexorder" "HOL-Library.Char_ord"
begin

section \<open>The database schema (database/schema.sql)\<close>

subsection \<open>Enum types\<close>

text \<open>
  The \<^verbatim>\<open>CREATE TYPE ... AS ENUM\<close> declarations, one constructor per label, in
  the order of the schema. \<^verbatim>\<open>complaint_status\<close> has eight labels: the last one is
  \<^verbatim>\<open>'escalated'\<close>.
\<close>

datatype water_body_type = Lake | River | Canal

datatype violation_type = Construction | Debris_dumping | Land_filling | Pollution | Unknown

datatype urgency_level = Urgency_low | Urgency_medium | Urgency_high

datatype severity_priority = Priority_low | Priority_medium | Priority_critical

datatype complaint_status =
  Submitted | Validated | Ai_processed | Assigned | In_progress | Resolved | Rejected | Escalated

datatype escalation_level = Level_1 | Level_2 | Level_3

subsection \<open>The complaints table\<close>

text \<open>
  One row of \<^verbatim>\<open>complaints\<close>. A column declared \<^verbatim>\<open>NOT NULL\<close> (or the primary key)
  has its value type; every other column is nullable and is an \<open>option\<close>, \<open>None\<close> being
  SQL's NULL. \<^verbatim>\<open>complaint_number\<close> is \<^verbatim>\<open>NOT NULL\<close>, but the row a
  \<^verbatim>\<open>BEFORE INSERT\<close> trigger sees may still carry NULL there, so the column is an
  option and the constraint is checked by the insert. UUIDs and texts are strings,
  \<^verbatim>\<open>DECIMAL\<close> columns are rationals, a \<^verbatim>\<open>GEOMETRY(Point, 4326)\<close> is its pair of
  coordinates, and a \<^verbatim>\<open>TIMESTAMPTZ\<close> is the number of microseconds since the epoch.
\<close>

type_synonym uuid = string
type_synonym timestamptz = int

record complaints_row =
  row_id :: uuid
  complaint_number :: "string option"
  citizen_id :: uuid
  water_body_id :: "uuid option"
  category :: water_body_type
  description :: "string option"
  location :: "rat \<times> rat"
  latitude :: rat
  longitude :: rat
  address :: "string option"
  ai_violation_type :: "violation_type option"
  ai_confidence_score :: "rat option"
  ai_urgency :: "urgency_level option"
  ai_processed_at :: "timestamptz option"
  severity_score :: "int option"
  severity_priority :: "severity_priority option"
  status :: "complaint_status option"
  assigned_officer_id :: "uuid option"
  sla_deadline :: "timestamptz option"
  resolved_at :: "timestamptz option"
  resolution_notes :: "string option"
  resolution_proof_url :: "string option"
  escalation_level :: "escalation_level option"
  escalated_at :: "timestamptz option"
  created_at :: "timestamptz option"
  updated_at :: "timestamptz option"

text \<open>\<^verbatim>\<open>INTERVAL 'n days'\<close> added to a timestamp, in a session time zone without
  daylight saving: \<open>n\<close> times 86400 seconds, in microseconds.\<close>

definition interval_days :: "int \<Rightarrow> int" where
  "interval_days n = n * 86400000000"

subsection \<open>Text functions of PostgreSQL used by the trigger\<close>

definition digit_char :: "nat \<Rightarrow> char" where
  "digit_char d = ''0123456789'' ! (d mod 10)"

text \<open>\<^verbatim>\<open>n::TEXT\<close> for a non-negative integer: its decimal digits, no leading zero.\<close>

function text_of_nat :: "nat \<Rightarrow> string" where
  "text_of_nat n = (if n < 10 then [digit_char n] else text_of_nat (n div 10) @ [digit_char n])"
  by pat_completeness auto
termination
  by (relation "measure (\<lambda>n. n)") auto

declare text_of_nat.simps [simp del]

text \<open>
  \<^verbatim>\<open>LPAD(string, length, fill)\<close>: the string is extended to \<open>length\<close> characters
  by prepending \<open>fill\<close>, repeated as often as needed; a string that is already longer
  is truncated on the right to \<open>length\<close> characters.
\<close>

definition lpad :: "string \<Rightarrow> nat \<Rightarrow> string \<Rightarrow> string" where
  "lpad s n fill =
     (if n \<le> length s then take n s
      else if fill = [] then s
      else take (n - length s) (concat (replicate (n - length s) fill)) @ s)"

text \<open>The calendar date of \<^verbatim>\<open>NOW()\<close> in the session's time zone.\<close>

record date =
  year :: nat
  month :: nat
  day :: nat

text \<open>A number in a \<^verbatim>\<open>TO_CHAR\<close> template field of \<open>w\<close> digits: zero-filled to
  at least \<open>w\<close> digits, never truncated.\<close>

definition zero_fill :: "nat \<Rightarrow> nat \<Rightarrow> string" where
  "zero_fill w n = replicate (w - length (text_of_nat n)) (CHR ''0'') @ text_of_nat n"

definition to_char_YYYYMMDD :: "date \<Rightarrow> string" where
  "to_char_YYYYMMDD d = zero_fill 4 (year d) @ zero_fill 2 (month d) @ zero_fill 2 (day d)"

text \<open>
  The dates whose year \<^verbatim>\<open>TO_CHAR\<close> writes in four digits, and the order of the
  calendar on dates.
\<close>

definition valid_date :: "date \<Rightarrow> bool" where
  "valid_date d =
     (1 \<le> year d \<and> year d \<le> 9999 \<and> 1 \<le> month d \<and> month d \<le> 12
      \<and> 1 \<le> day d \<and> day d \<le> 31)"

definition date_le :: "date \<Rightarrow> date \<Rightarrow> bool" where
  "date_le a b =
     (year a < year b
      \<or> (year a = year b
          \<and> (month a < month b \<or> (month a = month b \<and> day a \<le> day b))))"

text \<open>The digits of \<open>n mod 10 ^ w\<close> in exactly \<open>w\<close> positions; used to reason about
  zero-padded numbers.\<close>

fun fixed_digits :: "nat \<Rightarrow> nat \<Rightarrow> string" where
  "fixed_digits 0 n = []"
| "fixed_digits (Suc w) n = fixed_digits w (n div 10) @ [digit_char n]"

subsection \<open>The complaint-number trigger\<close>

text \<open>
  \<^verbatim>\<open>generate_complaint_number()\<close>: \<^verbatim>\<open>seq_num\<close> is \<^verbatim>\<open>COUNT(*) + 1\<close> over the
  table as the trigger sees it, and the number is
  \<^verbatim>\<open>'AQS-' || TO_CHAR(NOW(), 'YYYYMMDD') || '-' || LPAD(seq_num::TEXT, 5, '0')\<close>.
  The text depends on the table through its row count only.
\<close>

definition complaint_number_text :: "date \<Rightarrow> nat \<Rightarrow> string" where
  "complaint_number_text today n =
     ''AQS-'' @ to_char_YYYYMMDD today @ ''-'' @ lpad (text_of_nat (n + 1)) 5 ''0''"

definition generate_complaint_number ::
  "date \<Rightarrow> complaints_row list \<Rightarrow> complaints_row \<Rightarrow> complaints_row" where
  "generate_complaint_number today complaints new =
     new\<lparr>complaint_number := Some (complaint_number_text today (length complaints))\<rparr>"

text \<open>The \<^verbatim>\<open>WHEN\<close> clause of \<^verbatim>\<open>trg_complaint_number\<close>.\<close>

definition trg_complaint_number_when :: "complaints_row \<Rightarrow> bool" where
  "trg_complaint_number_when new =
     (complaint_number new = None \<or> complaint_number new = Some [])"

text \<open>\<^verbatim>\<open>trg_complaint_number\<close>: \<^verbatim>\<open>BEFORE INSERT ... FOR EACH ROW WHEN (...)\<close>.
  The row the function returns is the row that is inserted.\<close>

definition trg_complaint_number ::
  "date \<Rightarrow> complaints_row list \<Rightarrow> complaints_row \<Rightarrow> complaints_row" where
  "trg_complaint_number today complaints new =
     (if trg_complaint_number_when new then generate_complaint_number today complaints new
      else new)"

subsection \<open>Inserting a row\<close>

datatype sql_error =
  Not_null_violation | Unique_violation | Check_violation | String_data_right_truncation
  | Numeric_value_out_of_range

text \<open>
  Storing a text into a \<^verbatim>\<open>VARCHAR(n)\<close> column: a text of at most \<open>n\<close> characters is
  stored as it is; a longer one whose characters beyond the \<open>n\<close>-th are all blanks is cut
  to its first \<open>n\<close> characters; any other longer text is an error.
\<close>

definition varchar :: "nat \<Rightarrow> string \<Rightarrow> sql_error + string" where
  "varchar n s =
     (if length s \<le> n then Inr s
      else if list_all (\<lambda>c. c = CHR '' '') (drop n s) then Inr (take n s)
      else Inl String_data_right_truncation)"

text \<open>
  Storing a number into a \<^verbatim>\<open>DECIMAL(p, s)\<close> column: it is rounded to \<open>s\<close> digits
  after the decimal point, half away from zero, and the rounded value must be below
  \<open>10 ^ (p - s)\<close> in absolute value.
\<close>

definition round_half_away :: "rat \<Rightarrow> int" where
  "round_half_away x = (if 0 \<le> x then \<lfloor>x + 1 / 2\<rfloor> else - \<lfloor>- x + 1 / 2\<rfloor>)"

definition decimal :: "nat \<Rightarrow> nat \<Rightarrow> rat \<Rightarrow> sql_error + rat" where
  "decimal p s x =
     (let r = of_int (round_half_away (x * 10 ^ s)) / 10 ^ s in
      if 10 ^ (p - s) \<le> \<bar>r\<bar> then Inl Numeric_value_out_of_range else Inr r)"

text \<open>Storing a whole number into an \<^verbatim>\<open>INTEGER\<close> column: it must fit 32 bits.\<close>

definition int4 :: "int \<Rightarrow> sql_error + int" where
  "int4 v =
     (if - 2147483648 \<le> v \<and> v \<le> 2147483647 then Inr v else Inl Numeric_value_out_of_range)"

text \<open>A nullable column: NULL is stored as NULL.\<close>

definition nullable :: "('a \<Rightarrow> sql_error + 'a) \<Rightarrow> 'a option \<Rightarrow> sql_error + 'a option" where
  "nullable f v =
     (case v of
        None \<Rightarrow> Inr None
      | Some x \<Rightarrow> (case f x of Inl e \<Rightarrow> Inl e | Inr y \<Rightarrow> Inr (Some y)))"

text \<open>
  The values an \<^verbatim>\<open>INSERT\<close> supplies are converted to the types of their columns
  before any trigger sees the row: \<^verbatim>\<open>complaint_number VARCHAR(20)\<close>,
  \<^verbatim>\<open>latitude\<close> and \<^verbatim>\<open>longitude DECIMAL(10, 7)\<close>,
  \<^verbatim>\<open>ai_confidence_score DECIMAL(5, 4)\<close> and \<^verbatim>\<open>severity_score INTEGER\<close>. The
  other columns hold texts of unbounded length, enum values, or values (UUIDs in their
  canonical text, points, timestamps) that are taken as values of the column type
  already.
\<close>

definition complaints_coerce :: "complaints_row \<Rightarrow> sql_error + complaints_row" where
  "complaints_coerce new =
     (case nullable (varchar 20) (complaint_number new) of
        Inl e \<Rightarrow> Inl e
      | Inr num \<Rightarrow>
     (case decimal 10 7 (latitude new) of
        Inl e \<Rightarrow> Inl e
      | Inr lat \<Rightarrow>
     (case decimal 10 7 (longitude new) of
        Inl e \<Rightarrow> Inl e
      | Inr lon \<Rightarrow>
     (case nullable (decimal 5 4) (ai_confidence_score new) of
        Inl e \<Rightarrow> Inl e
      | Inr conf \<Rightarrow>
     (case nullable int4 (severity_score new) of
        Inl e \<Rightarrow> Inl e
      | Inr sev \<Rightarrow>
          Inr (new\<lparr>complaint_number := num, latitude := lat, longitude := lon,
                   ai_confidence_score := conf, severity_score := sev\<rparr>))))))"

text \<open>\<^verbatim>\<open>CHECK (severity_score BETWEEN 0 AND 100)\<close>; a check constraint passes on
  NULL.\<close>

definition severity_score_check :: "int option \<Rightarrow> bool" where
  "severity_score_check s = (case s of None \<Rightarrow> True | Some v \<Rightarrow> 0 \<le> v \<and> v \<le> 100)"

text \<open>
  \<^verbatim>\<open>INSERT INTO complaints\<close> of one row whose omitted columns already hold their
  defaults: the supplied values are converted to the column types, then the
  \<^verbatim>\<open>BEFORE INSERT\<close> trigger runs, then the constraints of the table that concern the
  table alone are checked: \<^verbatim>\<open>NOT NULL\<close> on \<^verbatim>\<open>complaint_number\<close>, its length
  (the number the trigger assigns is a \<^verbatim>\<open>VARCHAR(20)\<close> too, and a generated number
  ends in a digit), the check on \<^verbatim>\<open>severity_score\<close>, the primary key, and
  \<^verbatim>\<open>UNIQUE\<close> on \<^verbatim>\<open>complaint_number\<close>. A failed insert leaves the table as it
  was. Foreign keys into other tables are outside this model.
\<close>

definition insert_complaint ::
  "date \<Rightarrow> complaints_row \<Rightarrow> complaints_row list \<Rightarrow> sql_error + complaints_row list" where
  "insert_complaint today new0 complaints =
     (case complaints_coerce new0 of
        Inl e \<Rightarrow> Inl e
      | Inr new1 \<Rightarrow>
          (let new = trg_complaint_number today complaints new1 in
           case complaint_number new of
             None \<Rightarrow> Inl Not_null_violation
           | Some num \<Rightarrow>
               if 20 < length num then Inl String_data_right_truncation
               else if \<not> severity_score_check (severity_score new) then Inl Check_violation
               else if row_id new \<in> set (map row_id complaints) then Inl Unique_violation
               else if Some num \<in> set (map complaint_number complaints)
               then Inl Unique_violation
               else Inr (complaints @ [new])))"

text \<open>Any sequence of single-row inserts, each with the date of its \<^verbatim>\<open>NOW()\<close>; a
  rejected insert leaves the table unchanged and the next one is attempted.\<close>

fun run_inserts :: "(date \<times> complaints_row) list \<Rightarrow> complaints_row list \<Rightarrow> complaints_row list" where
  "run_inserts [] complaints = complaints"
| "run_inserts ((today, new) # rest) complaints =
     run_inserts rest
       (case insert_complaint today new complaints of
          Inl e \<Rightarrow> complaints
        | Inr complaints' \<Rightarrow> complaints')"

subsection \<open>Column defaults\<close>

text \<open>
  The row an \<^verbatim>\<open>INSERT\<close> builds when it gives only the columns that have neither a
  default nor nullability: every other column takes its \<^verbatim>\<open>DEFAULT\<close>, or NULL when
  it has none. \<^verbatim>\<open>uuid_generate_v4()\<close> and \<^verbatim>\<open>NOW()\<close> are parameters.
\<close>

definition complaints_default_row ::
  "uuid \<Rightarrow> timestamptz \<Rightarrow> uuid \<Rightarrow> water_body_type \<Rightarrow> rat \<times> rat \<Rightarrow> rat \<Rightarrow> rat
     \<Rightarrow> complaints_row" where
  "complaints_default_row new_uuid now citizen cat loc lat lon =
     \<lparr>row_id = new_uuid, complaint_number = None, citizen_id = citizen,
      water_body_id = None, category = cat, description = None, location = loc,
      latitude = lat, longitude = lon, address = None,
      ai_violation_type = Some Unknown, ai_confidence_score = Some 0,
      ai_urgency = Some Urgency_low, ai_processed_at = None,
      severity_score = Some 0, severity_priority = Some Priority_low,
      status = Some Submitted, assigned_officer_id = None, sla_deadline = None,
      resolved_at = None, resolution_notes = None, resolution_proof_url = None,
      escalation_level = None, escalated_at = None,
      created_at = Some now, updated_at = Some now\<rparr>"

subsection \<open>The SLA table of the documentation\<close>

text \<open>The table "Severity Priority" of the API documentation and step 5 of the
  processing pipeline of the architecture overview: critical 3 days, medium 7 days,
  low 10 days.\<close>

definition sla_days :: "severity_priority \<Rightarrow> int" where
  "sla_days p = (case p of Priority_critical \<Rightarrow> 3 | Priority_medium \<Rightarrow> 7 | Priority_low \<Rightarrow> 10)"

section \<open>The seed data (database/seed.sql)\<close>

text \<open>
  The three rows of the \<^verbatim>\<open>INSERT INTO complaints\<close> of the seed script; \<open>now\<close> is
  \<^verbatim>\<open>NOW()\<close> of that statement. The columns the statement does not list take their
  defaults.
\<close>

definition seed_complaint_1 :: "timestamptz \<Rightarrow> complaints_row" where
  "seed_complaint_1 now =
     \<lparr>row_id = ''c0000000-0000-0000-0000-000000000001'',
      complaint_number = Some ''AQS-20260225-00001'',
      citizen_id = ''a0000000-0000-0000-0000-000000000004'',
      water_body_id = Some ''b0000000-0000-0000-0000-000000000001'',
      category = Lake,
      description = Some ''Large-scale construction activity observed near Bellandur Lake shore. Foundation digging in progress.'',
      location = (7766 / 100, 1294 / 100),
      latitude = 1294 / 100, longitude = 7766 / 100, address = None,
      ai_violation_type = Some Construction, ai_confidence_score = Some (92 / 100),
      ai_urgency = Some Urgency_high, ai_processed_at = Some now,
      severity_score = Some 88, severity_priority = Some Priority_critical,
      status = Some Assigned,
      assigned_officer_id = Some ''a0000000-0000-0000-0000-000000000002'',
      sla_deadline = Some (now + interval_days 3),
      resolved_at = None, resolution_notes = None, resolution_proof_url = None,
      escalation_level = None, escalated_at = None,
      created_at = Some now, updated_at = Some now\<rparr>"

definition seed_complaint_2 :: "timestamptz \<Rightarrow> complaints_row" where
  "seed_complaint_2 now =
     \<lparr>row_id = ''c0000000-0000-0000-0000-000000000002'',
      complaint_number = Some ''AQS-20260225-00002'',
      citizen_id = ''a0000000-0000-0000-0000-000000000004'',
      water_body_id = Some ''b0000000-0000-0000-0000-000000000002'',
      category = Lake,
      description = Some ''Debris and garbage dumped near Ulsoor Lake. Affecting water quality.'',
      location = (7762 / 100, 12984 / 1000),
      latitude = 12984 / 1000, longitude = 7762 / 100, address = None,
      ai_violation_type = Some Debris_dumping, ai_confidence_score = Some (85 / 100),
      ai_urgency = Some Urgency_medium, ai_processed_at = Some now,
      severity_score = Some 62, severity_priority = Some Priority_medium,
      status = Some In_progress,
      assigned_officer_id = Some ''a0000000-0000-0000-0000-000000000002'',
      sla_deadline = Some (now + interval_days 7),
      resolved_at = None, resolution_notes = None, resolution_proof_url = None,
      escalation_level = None, escalated_at = None,
      created_at = Some now, updated_at = Some now\<rparr>"

definition seed_complaint_3 :: "timestamptz \<Rightarrow> complaints_row" where
  "seed_complaint_3 now =
     \<lparr>row_id = ''c0000000-0000-0000-0000-000000000003'',
      complaint_number = Some ''AQS-20260225-00003'',
      citizen_id = ''a0000000-0000-0000-0000-000000000004'',
      water_body_id = Some ''b0000000-0000-0000-0000-000000000003'',
      category = Lake,
      description = Some ''Minor pollution spotted near Hebbal Lake inlet. Appears to be sewage runoff.'',
      location = (77592 / 1000, 1304 / 100),
      latitude = 1304 / 100, longitude = 77592 / 1000, address = None,
      ai_violation_type = Some Pollution, ai_confidence_score = Some (78 / 100),
      ai_urgency = Some Urgency_low, ai_processed_at = Some now,
      severity_score = Some 35, severity_priority = Some Priority_low,
      status = Some Ai_processed,
      assigned_officer_id = None,
      sla_deadline = Some (now + interval_days 10),
      resolved_at = None, resolution_notes = None, resolution_proof_url = None,
      escalation_level = None, escalated_at = None,
      created_at = Some now, updated_at = Some now\<rparr>"

definition seed_complaints :: "timestamptz \<Rightarrow> complaints_row list" where
  "seed_complaints now = [seed_complaint_1 now, seed_complaint_2 now, seed_complaint_3 now]"

text \<open>A multi-row \<^verbatim>\<open>INSERT\<close>: the rows are inserted one after the other and the
  statement fails with the first error.\<close>

fun insert_complaints ::
  "date \<Rightarrow> complaints_row list \<Rightarrow> complaints_row list \<Rightarrow> sql_error + complaints_row list" where
  "insert_complaints today [] complaints = Inr complaints"
| "insert_complaints today (new # rest) complaints =
     (case insert_complaint today new complaints of
        Inl e \<Rightarrow> Inl e
      | Inr complaints' \<Rightarrow> insert_complaints today rest complaints')"

subsection \<open>Enum input and output\<close>

text \<open>The labels of \<^verbatim>\<open>complaint_status\<close> in declaration order, the text of each
  label, and the conversion of a text to the enum: a text that is no label of the type is
  refused (\<open>None\<close>).\<close>

definition complaint_status_range :: "complaint_status list" where
  "complaint_status_range =
     [Submitted, Validated, Ai_processed, Assigned, In_progress, Resolved, Rejected, Escalated]"

definition complaint_status_out :: "complaint_status \<Rightarrow> string" where
  "complaint_status_out st =
     (case st of
        Submitted \<Rightarrow> ''submitted''
      | Validated \<Rightarrow> ''validated''
      | Ai_processed \<Rightarrow> ''ai_processed''
      | Assigned \<Rightarrow> ''assigned''
      | In_progress \<Rightarrow> ''in_progress''
      | Resolved \<Rightarrow> ''resolved''
      | Rejected \<Rightarrow> ''rejected''
      | Escalated \<Rightarrow> ''escalated'')"

definition complaint_status_in :: "string \<Rightarrow> complaint_status option" where
  "complaint_status_in s = find (\<lambda>st. complaint_status_out st = s) complaint_status_range"

section \<open>The frontend\<close>

subsection \<open>The status badges of the tracking page\<close>

text \<open>\<^verbatim>\<open>statusColors\<close>, a \<^verbatim>\<open>Record<string, string>\<close> keyed by the status text.\<close>

definition statusColors :: "(string \<times> string) list" where
  "statusColors =
     [(''submitted'', ''badge-low''),
      (''validated'', ''badge-low''),
      (''ai_processed'', ''badge-medium''),
      (''assigned'', ''badge-medium''),
      (''in_progress'', ''badge-medium''),
      (''resolved'', ''badge-low''),
      (''rejected'', ''badge-critical''),
      (''escalated'', ''badge-critical'')]"

subsection \<open>The SLA countdown of the officer dashboard\<close>

text \<open>
  The object \<^verbatim>\<open>getSLACountdown\<close> returns. The field \<^verbatim>\<open>text\<close> is named
  \<open>sla_text\<close> here, and the other two fields accordingly.
\<close>

record sla_countdown =
  sla_text :: string
  sla_color :: string
  sla_urgent :: bool

text \<open>
  \<^verbatim>\<open>getSLACountdown(deadline)\<close>. \<open>now\<close> is \<^verbatim>\<open>new Date().getTime()\<close>, in
  milliseconds. \<open>end_time\<close> is \<^verbatim>\<open>new Date(deadline).getTime()\<close>: \<open>Some\<close> of the
  milliseconds, or \<open>None\<close> for the \<^verbatim>\<open>NaN\<close> of a text that is no date. Every
  comparison with \<^verbatim>\<open>NaN\<close> is false and \<^verbatim>\<open>Math.floor\<close> keeps it, so that case
  falls through to the last \<^verbatim>\<open>return\<close> with \<^verbatim>\<open>hours = NaN\<close>. Time values are
  integers, and \<^verbatim>\<open>Math.floor(diff / 3600000)\<close> of a positive \<open>diff\<close> is the integer
  quotient.
\<close>

definition getSLACountdown :: "int \<Rightarrow> int option \<Rightarrow> sla_countdown" where
  "getSLACountdown now end_time =
     (case end_time of
        None \<Rightarrow>
          \<lparr>sla_text = ''NaN'' @ ''h remaining'', sla_color = ''text-warning-400'',
           sla_urgent = True\<rparr>
      | Some e \<Rightarrow>
          (let diff = e - now in
           if diff \<le> 0 then
             \<lparr>sla_text = ''OVERDUE'', sla_color = ''text-danger-400'', sla_urgent = True\<rparr>
           else
             (let hours = diff div (1000 * 60 * 60);
                  days = hours div 24;
                  remainingHours = hours mod 24
              in
              if days > 0 then
                \<lparr>sla_text = text_of_nat (nat days) @ ''d '' @ text_of_nat (nat remainingHours)
                    @ ''h remaining'',
                 sla_color = (if days \<le> 1 then ''text-warning-400'' else ''text-success-400''),
                 sla_urgent = (days \<le> 1)\<rparr>
              else
                \<lparr>sla_text = text_of_nat (nat hours) @ ''h remaining'',
                 sla_color = (if hours \<le> 12 then ''text-danger-400'' else ''text-warning-400''),
                 sla_urgent = True\<rparr>)))"

section \<open>The complaint lifecycle engine\<close>

text \<open>
  The backend that scores, assigns, moves and escalates complaints is not among the
  source files; only the tables it writes, their triggers, the seed rows and the
  documentation are. The definitions of this section that are marked as modelled from
  the specification follow its sections 4.2, 4.3 and 4.5 and act on the rows of the
  schema above.
\<close>

datatype user_role = Citizen | Officer | Supervisor | Admin

subsection \<open>Severity scoring\<close>

text \<open>Modelled from the spec: the classifier output consumed by the severity scorer
  (violation type, confidence in [0,1], urgency); the classifier is an external
  collaborator.\<close>

record classifier_output =
  violationType :: violation_type
  confidence :: rat
  urgency :: urgency_level

text \<open>Modelled from the spec: the configurable parts of the severity scorer, which the
  specification leaves open: the base weight and the environmental-impact weight of a
  violation type, each on the scale 0 to 100, and the saturation constant of the local
  complaint density.\<close>

record scorer_config =
  base_weight :: "violation_type \<Rightarrow> rat"
  impact_weight :: "violation_type \<Rightarrow> rat"
  saturation :: nat

text \<open>Modelled from the spec: the urgency level mapped to low = 20, medium = 60,
  high = 100 (the scorer's code is missing).\<close>

definition urgency_factor :: "urgency_level \<Rightarrow> rat" where
  "urgency_factor u =
     (case u of Urgency_low \<Rightarrow> 20 | Urgency_medium \<Rightarrow> 60 | Urgency_high \<Rightarrow> 100)"

text \<open>Modelled from the spec: the count of prior complaints nearby, normalized against
  the saturation constant to the scale 0 to 100 (the scorer's code is missing).\<close>

definition density_factor :: "nat \<Rightarrow> nat \<Rightarrow> rat" where
  "density_factor sat n = min 100 (100 * of_nat n / of_nat sat)"

text \<open>Modelled from the spec: the weighted sum of the five factors with the weights
  0.40, 0.20, 0.15, 0.15 and 0.10 (the scorer's code is missing).\<close>

definition weighted_sum :: "scorer_config \<Rightarrow> classifier_output \<Rightarrow> int \<Rightarrow> nat \<Rightarrow> rat" where
  "weighted_sum cfg out sensitivity density =
     (40 / 100) * base_weight cfg (violationType out)
     + (20 / 100) * urgency_factor (urgency out)
     + (15 / 100) * of_int sensitivity
     + (15 / 100) * density_factor (saturation cfg) density
     + (10 / 100) * impact_weight cfg (violationType out)"

text \<open>Modelled from the spec: the band of a severity score: at least 70 is critical, at
  least 40 and below 70 is medium, below 40 is low (the scorer's code is missing; the
  table "Severity Priority" of the API documentation has the same three ranges).\<close>

definition priority_band :: "int \<Rightarrow> severity_priority" where
  "priority_band s =
     (if s \<ge> 70 then Priority_critical else if s \<ge> 40 then Priority_medium else Priority_low)"

text \<open>Modelled from the spec: the severity scorer's
  \<^verbatim>\<open>score(classifierOutput, waterBody, localComplaintDensity)\<close>: the weighted sum,
  rounded to the nearest integer and clamped to 0..100, with its band (the scorer's code
  is missing). Of the water body the scorer reads the sensitivity score.\<close>

definition score ::
  "scorer_config \<Rightarrow> classifier_output \<Rightarrow> int \<Rightarrow> nat \<Rightarrow> int \<times> severity_priority" where
  "score cfg out sensitivity density =
     (let severityScore = max 0 (min 100 (round (weighted_sum cfg out sensitivity density)))
      in (severityScore, priority_band severityScore))"

subsection \<open>The status state machine\<close>

text \<open>Modelled from the spec: the result of the GeoValidator, an input of the first
  transition (the validator's code is missing).\<close>

datatype geo_result = ACCEPTED | ACCEPTED_NEAR | REJECTED

text \<open>Modelled from the spec: the error kinds of section 7 (the services raising them are
  missing).\<close>

datatype lifecycle_error =
  OutOfBounds | ClassificationUnavailable | NoEligibleOfficer | InvalidTransition
  | EscalationRaceSkipped

text \<open>An entry of the audit trail of one complaint: the columns of
  \<^verbatim>\<open>complaint_status_log\<close> other than its keys.\<close>

record status_log_entry =
  log_old_status :: "complaint_status option"
  log_new_status :: complaint_status
  log_changed_by :: "uuid option"
  log_notes :: "string option"
  log_changed_at :: timestamptz

text \<open>An entry of the escalation history of one complaint: the level, reason and time
  columns of \<^verbatim>\<open>escalation_history\<close>.\<close>

record escalation_history_entry =
  esc_from_level :: "escalation_level option"
  esc_to_level :: escalation_level
  esc_reason :: "string option"
  esc_escalated_at :: timestamptz

text \<open>Modelled from the spec: the persisted state of one complaint that the lifecycle
  engine owns: its row, its status log and its escalation history (the engine's code is
  missing).\<close>

record lifecycle =
  complaint :: complaints_row
  status_log :: "status_log_entry list"
  escalation_history :: "escalation_history_entry list"

text \<open>Modelled from the spec: a request to move a complaint to a status, with what the
  guards of section 4.3 read: the GeoValidator result, the classifier output, the
  SeverityScorer output, the OfficerAssigner result (\<open>None\<close> when there is no eligible
  officer) and the resolution note and proof (the engine's code is missing).\<close>

record transition_request =
  req_target :: complaint_status
  req_now :: timestamptz
  req_actor :: "uuid option"
  req_note :: "string option"
  req_geo :: geo_result
  req_classifier :: "classifier_output option"
  req_score :: "(int \<times> severity_priority) option"
  req_officer :: "uuid option"
  req_resolution_notes :: "string option"
  req_resolution_proof_url :: "string option"

text \<open>Modelled from the spec: the transition table of section 4.3 (the engine's code is
  missing).\<close>

definition transition_table :: "(complaint_status \<times> complaint_status) list" where
  "transition_table =
     [(Submitted, Validated), (Validated, Ai_processed), (Ai_processed, Assigned),
      (Assigned, In_progress), (In_progress, Resolved), (In_progress, Rejected),
      (Assigned, Rejected)]"

text \<open>\<^verbatim>\<open>update_updated_at()\<close>, the \<^verbatim>\<open>BEFORE UPDATE\<close> trigger function of the
  schema: \<^verbatim>\<open>NEW.updated_at = NOW()\<close>.\<close>

definition update_updated_at :: "timestamptz \<Rightarrow> complaints_row \<Rightarrow> complaints_row" where
  "update_updated_at now new = new\<lparr>updated_at := Some now\<rparr>"

text \<open>Modelled from the spec: the guard and the field changes of each permitted
  transition (the engine's code is missing). A rejected location is \<open>OutOfBounds\<close>, a
  missing classifier output \<open>ClassificationUnavailable\<close>, no officer
  \<open>NoEligibleOfficer\<close>; a missing scorer output or resolution, for which the
  specification names no error kind, makes the transition invalid. Entering
  \<^verbatim>\<open>assigned\<close> stores the score, the band and the officer and sets the SLA deadline
  to the instant of the transition plus the days of the band.\<close>

definition guard_effect ::
  "transition_request \<Rightarrow> complaints_row \<Rightarrow> lifecycle_error + complaints_row" where
  "guard_effect req c =
     (case req_target req of
        Validated \<Rightarrow> if req_geo req = REJECTED then Inl OutOfBounds else Inr c
      | Ai_processed \<Rightarrow>
          (case req_classifier req of
             None \<Rightarrow> Inl ClassificationUnavailable
           | Some out \<Rightarrow>
               Inr (c\<lparr>ai_violation_type := Some (violationType out),
                      ai_confidence_score := Some (confidence out),
                      ai_urgency := Some (urgency out),
                      ai_processed_at := Some (req_now req)\<rparr>))
      | Assigned \<Rightarrow>
          (case req_score req of
             None \<Rightarrow> Inl InvalidTransition
           | Some (sc, band) \<Rightarrow>
               (case req_officer req of
                  None \<Rightarrow> Inl NoEligibleOfficer
                | Some officer \<Rightarrow>
                    Inr (c\<lparr>severity_score := Some sc,
                           severity_priority := Some band,
                           assigned_officer_id := Some officer,
                           sla_deadline :=
                             Some (req_now req + interval_days (sla_days band))\<rparr>)))
      | In_progress \<Rightarrow> Inr c
      | Resolved \<Rightarrow>
          if req_resolution_notes req = None \<and> req_resolution_proof_url req = None
          then Inl InvalidTransition
          else Inr (c\<lparr>resolved_at := Some (req_now req),
                      resolution_notes := req_resolution_notes req,
                      resolution_proof_url := req_resolution_proof_url req\<rparr>)
      | Rejected \<Rightarrow> Inr c
      | Submitted \<Rightarrow> Inl InvalidTransition
      | Escalated \<Rightarrow> Inl InvalidTransition)"

text \<open>Modelled from the spec: the transition operation of the state machine (the
  engine's code is missing). It returns the error, if any, and the state afterwards. A
  transition that is not in the table fails with \<open>InvalidTransition\<close>; every failure
  leaves the state as it was; a success updates the row and appends one log entry.\<close>

definition transition ::
  "transition_request \<Rightarrow> lifecycle \<Rightarrow> lifecycle_error option \<times> lifecycle" where
  "transition req s =
     (case status (complaint s) of
        None \<Rightarrow> (Some InvalidTransition, s)
      | Some old \<Rightarrow>
          if (old, req_target req) \<notin> set transition_table then (Some InvalidTransition, s)
          else
            (case guard_effect req (complaint s) of
               Inl e \<Rightarrow> (Some e, s)
             | Inr c \<Rightarrow>
                 (None,
                  s\<lparr>complaint :=
                      update_updated_at (req_now req) (c\<lparr>status := Some (req_target req)\<rparr>),
                    status_log :=
                      status_log s @
                        [\<lparr>log_old_status = Some old, log_new_status = req_target req,
                          log_changed_by = req_actor req, log_notes = req_note req,
                          log_changed_at = req_now req\<rparr>]\<rparr>)))"

text \<open>Modelled from the spec: re-scoring a complaint stores the new score and band and
  nothing else of the complaint (the engine's code is missing).\<close>

definition rescore :: "timestamptz \<Rightarrow> int \<times> severity_priority \<Rightarrow> lifecycle \<Rightarrow> lifecycle" where
  "rescore now sb s =
     s\<lparr>complaint :=
         update_updated_at now
           ((complaint s)\<lparr>severity_score := Some (fst sb), severity_priority := Some (snd sb)\<rparr>)\<rparr>"

subsection \<open>The escalation scheduler\<close>

text \<open>The escalation level as an ordinal: NULL is none, then the three labels of the
  enum.\<close>

definition escalation_rank :: "escalation_level option \<Rightarrow> nat" where
  "escalation_rank l =
     (case l of None \<Rightarrow> 0 | Some Level_1 \<Rightarrow> 1 | Some Level_2 \<Rightarrow> 2 | Some Level_3 \<Rightarrow> 3)"

text \<open>Modelled from the spec: the kinds of event the scheduler emits (the scheduler's
  code is missing).\<close>

datatype event_kind = Warning | Supervisor_escalation | Admin_escalation

text \<open>Modelled from the spec: an event handed to the notification dispatcher: event kind,
  complaint reference and recipient role (the scheduler's code is missing).\<close>

record escalation_event =
  event_kind :: event_kind
  event_complaint :: uuid
  event_recipient :: user_role

text \<open>Modelled from the spec: one raise of the escalation level: the row gets the new
  level, one history entry (from-level, to-level, reason, timestamp) is appended and one
  event is emitted (the scheduler's code is missing).\<close>

definition raise_level ::
  "timestamptz \<Rightarrow> escalation_level \<Rightarrow> event_kind \<Rightarrow> user_role \<Rightarrow> string \<Rightarrow> lifecycle
     \<Rightarrow> escalation_event list \<times> lifecycle" where
  "raise_level now lvl kind recipient why s =
     ([\<lparr>event_kind = kind, event_complaint = row_id (complaint s),
        event_recipient = recipient\<rparr>],
      s\<lparr>complaint :=
          update_updated_at now
            ((complaint s)\<lparr>escalation_level := Some lvl, escalated_at := Some now\<rparr>),
        escalation_history :=
          escalation_history s @
            [\<lparr>esc_from_level = escalation_level (complaint s), esc_to_level = lvl,
              esc_reason = Some why, esc_escalated_at = now\<rparr>]\<rparr>)"

text \<open>Modelled from the spec: the scheduler's pass over one complaint at time \<open>now\<close>
  (the scheduler's code is missing). Only a complaint in \<^verbatim>\<open>assigned\<close> or
  \<^verbatim>\<open>in_progress\<close> status with a deadline and a level below the maximum is looked at;
  the three rules are those of section 4.5, and the reasons are the triggers of the table
  "Escalation Levels" of the API documentation.\<close>

definition escalation_pass ::
  "timestamptz \<Rightarrow> lifecycle \<Rightarrow> escalation_event list \<times> lifecycle" where
  "escalation_pass now s =
     (let c = complaint s; level = escalation_rank (escalation_level c) in
      case sla_deadline c of
        None \<Rightarrow> ([], s)
      | Some deadline \<Rightarrow>
          if \<not> (status c = Some Assigned \<or> status c = Some In_progress) then ([], s)
          else if \<not> level < 3 then ([], s)
          else if now \<ge> deadline - interval_days 1 \<and> now < deadline \<and> level = 0 then
            raise_level now Level_1 Warning Officer ''1 day before deadline'' s
          else if now \<ge> deadline \<and> now < deadline + interval_days 2 \<and> level < 2 then
            raise_level now Level_2 Supervisor_escalation Supervisor ''Deadline passed'' s
          else if now \<ge> deadline + interval_days 2 \<and> level < 3 then
            raise_level now Level_3 Admin_escalation Admin ''2+ days overdue'' s
          else ([], s))"

text \<open>Modelled from the spec: one pass of the scheduler over all complaints: the events
  of all complaints in order, and the complaints afterwards (the scheduler's code is
  missing).\<close>

definition scheduler_pass ::
  "timestamptz \<Rightarrow> lifecycle list \<Rightarrow> escalation_event list \<times> lifecycle list" where
  "scheduler_pass now store =
     (concat (map (\<lambda>s. fst (escalation_pass now s)) store),
      map (\<lambda>s. snd (escalation_pass now s)) store)"

text \<open>The level that the rules of the pass aim at, at time \<open>now\<close> for a deadline: 0
  before the last day, 1 in the last day, 2 from the deadline on, 3 from two days after
  the deadline on.\<close>

definition due_level :: "timestamptz \<Rightarrow> timestamptz \<Rightarrow> nat" where
  "due_level now deadline =
     (if now \<ge> deadline + interval_days 2 then 3
      else if now \<ge> deadline then 2
      else if now \<ge> deadline - interval_days 1 then 1
      else 0)"

subsection \<open>Histories of one complaint\<close>

text \<open>Modelled from the spec: the operations that change a complaint after its
  submission: a transition request (which may fail), a re-scoring and a scheduler pass
  (the engine's code is missing).\<close>

datatype lifecycle_op =
  Transition transition_request
  | Rescore timestamptz int severity_priority
  | Escalation_pass timestamptz

fun apply_op :: "lifecycle_op \<Rightarrow> lifecycle \<Rightarrow> lifecycle" where
  "apply_op (Transition req) s = snd (transition req s)"
| "apply_op (Rescore now sc band) s = rescore now (sc, band) s"
| "apply_op (Escalation_pass now) s = snd (escalation_pass now s)"

definition run :: "lifecycle_op list \<Rightarrow> lifecycle \<Rightarrow> lifecycle" where
  "run ops s = fold apply_op ops s"

text \<open>Modelled from the spec: the state of a complaint that has just been stored: its
  row, with an empty status log and an empty escalation history (the engine's code is
  missing).\<close>

definition new_lifecycle :: "complaints_row \<Rightarrow> lifecycle" where
  "new_lifecycle c = \<lparr>complaint = c, status_log = [], escalation_history = []\<rparr>"




subsection \<open>Example inputs\<close>

text \<open>A resolution request by nobody in particular at time 0, varied below; a complaint
  as submitted with the column defaults; a history that validates, classifies and
  assigns it at time 1000 as critical; and a continuation that re-scores it as low, runs
  the scheduler at the deadline and starts the work.\<close>

definition example_request :: transition_request where
  "example_request =
     \<lparr>req_target = Resolved, req_now = 0, req_actor = None, req_note = None,
      req_geo = ACCEPTED, req_classifier = None, req_score = None, req_officer = None,
      req_resolution_notes = Some ''removed'', req_resolution_proof_url = None\<rparr>"

definition example_submitted :: lifecycle where
  "example_submitted =
     new_lifecycle
       (complaints_default_row ''c0000000-0000-0000-0000-000000000009'' 0
          ''a0000000-0000-0000-0000-000000000004'' Lake (7766 / 100, 1294 / 100)
          (1294 / 100) (7766 / 100))"



section \<open>Verified properties\<close>

subsection \<open>Converting and inserting rows\<close>

lemma floor_numeral_div: "\<lfloor>numeral a / numeral b :: rat\<rfloor> = numeral a div numeral b"
  using floor_divide_of_int_eq [of "numeral a" "numeral b", where ?'a = rat] by simp

lemma floor_one_div_numeral: "\<lfloor>1 / numeral b :: rat\<rfloor> = 1 div numeral b"
  using floor_divide_of_int_eq [of 1 "numeral b", where ?'a = rat] by simp

lemma varchar_take: "varchar n s = Inr t \<Longrightarrow> t = take n s"
  by (auto simp: varchar_def split: if_splits)

lemma varchar_fits: "length s \<le> n \<Longrightarrow> varchar n s = Inr s"
  by (simp add: varchar_def)

lemma complaints_coerce_frame:
  assumes "complaints_coerce new = Inr new1"
  shows "new1 = new\<lparr>complaint_number := complaint_number new1, latitude := latitude new1,
           longitude := longitude new1, ai_confidence_score := ai_confidence_score new1,
           severity_score := severity_score new1\<rparr>"
  using assms by (auto simp: complaints_coerce_def split: sum.splits)

lemma complaints_coerce_fields:
  assumes "complaints_coerce new = Inr new1"
  shows "status new1 = status new" and "sla_deadline new1 = sla_deadline new"
    and "row_id new1 = row_id new"
  using assms by (auto simp: complaints_coerce_def split: sum.splits)

lemma complaints_coerce_number:
  assumes "complaints_coerce new = Inr new1"
  shows "complaint_number new1 = map_option (take 20) (complaint_number new)"
  using assms
  by (auto simp: complaints_coerce_def nullable_def split: sum.splits option.splits
      dest: varchar_take)

lemma complaints_coerce_status:
  "complaints_coerce (new\<lparr>status := a, escalation_level := b\<rparr>) =
     (case complaints_coerce new of
        Inl e \<Rightarrow> Inl e
      | Inr r \<Rightarrow> Inr (r\<lparr>status := a, escalation_level := b\<rparr>))"
  by (simp add: complaints_coerce_def split: sum.splits)

lemma complaints_coerce_seed:
  "complaints_coerce (seed_complaint_1 t) = Inr (seed_complaint_1 t)"
  "complaints_coerce (seed_complaint_2 t) = Inr (seed_complaint_2 t)"
  "complaints_coerce (seed_complaint_3 t) = Inr (seed_complaint_3 t)"
  by (simp_all add: complaints_coerce_def nullable_def varchar_def decimal_def
      round_half_away_def int4_def Let_def floor_numeral_div
      seed_complaint_1_def seed_complaint_2_def seed_complaint_3_def)

lemma complaints_coerce_example:
  "complaints_coerce (complaint example_submitted) = Inr (complaint example_submitted)"
  by (simp add: complaints_coerce_def nullable_def varchar_def decimal_def
      round_half_away_def int4_def Let_def floor_numeral_div floor_one_div_numeral
      example_submitted_def new_lifecycle_def complaints_default_row_def)

lemma insert_complaint_supplied:
  assumes "complaints_coerce new0 = Inr new1"
    and "complaint_number new1 = Some s" and "s \<noteq> []" and "length s \<le> 20"
    and "severity_score_check (severity_score new1)"
    and "row_id new1 \<notin> set (map row_id complaints)"
    and "Some s \<notin> set (map complaint_number complaints)"
  shows "insert_complaint today new0 complaints = Inr (complaints @ [new1])"
  using assms
  by (simp add: insert_complaint_def trg_complaint_number_def trg_complaint_number_when_def)

lemma insert_seed_complaints:
  "insert_complaint today (seed_complaint_1 t) [] = Inr [seed_complaint_1 t]"
  "insert_complaint today (seed_complaint_2 t) [seed_complaint_1 t]
     = Inr [seed_complaint_1 t, seed_complaint_2 t]"
  "insert_complaint today (seed_complaint_3 t) [seed_complaint_1 t, seed_complaint_2 t]
     = Inr [seed_complaint_1 t, seed_complaint_2 t, seed_complaint_3 t]"
proof -
  show "insert_complaint today (seed_complaint_1 t) [] = Inr [seed_complaint_1 t]"
    using insert_complaint_supplied [OF complaints_coerce_seed(1), of t "''AQS-20260225-00001''" "[]" today]
    by (simp add: seed_complaint_1_def severity_score_check_def)
  show "insert_complaint today (seed_complaint_2 t) [seed_complaint_1 t]
     = Inr [seed_complaint_1 t, seed_complaint_2 t]"
    using insert_complaint_supplied [OF complaints_coerce_seed(2), of t "''AQS-20260225-00002''"
        "[seed_complaint_1 t]" today]
    by (simp add: seed_complaint_1_def seed_complaint_2_def severity_score_check_def)
  show "insert_complaint today (seed_complaint_3 t) [seed_complaint_1 t, seed_complaint_2 t]
     = Inr [seed_complaint_1 t, seed_complaint_2 t, seed_complaint_3 t]"
    using insert_complaint_supplied [OF complaints_coerce_seed(3), of t "''AQS-20260225-00003''"
        "[seed_complaint_1 t, seed_complaint_2 t]" today]
    by (simp add: seed_complaint_1_def seed_complaint_2_def seed_complaint_3_def
        severity_score_check_def)
qed

subsection \<open>The complaint-number trigger\<close>





subsection \<open>The SLA countdown of the officer dashboard\<close>

lemma hours_days: "(d :: int) div 3600000 div 24 = d div 86400000"
  by (simp add: zdiv_zmult2_eq [symmetric])

lemma day_iff: "0 < (d :: int) \<Longrightarrow> (0 < d div 86400000) = (86400000 \<le> d)"
  by (simp add: pos_imp_zdiv_pos_iff)

lemma two_days_iff: "0 < (d :: int) \<Longrightarrow> (d div 86400000 \<le> 1) = (d < 172800000)"
  by linarith

lemma half_day_iff: "0 < (d :: int) \<Longrightarrow> (d div 3600000 \<le> 12) = (d < 46800000)"
  by linarith


lemma append_h_remaining_neq: "xs @ ''h remaining'' \<noteq> ''OVERDUE''"
proof
  assume "xs @ ''h remaining'' = ''OVERDUE''"
  then have "length (xs @ ''h remaining'') = length ''OVERDUE''" by (rule arg_cong)
  then show False by simp
qed

lemma append_d_h_remaining_neq: "xs @ ''d '' @ ys @ ''h remaining'' \<noteq> ''OVERDUE''"
proof
  assume "xs @ ''d '' @ ys @ ''h remaining'' = ''OVERDUE''"
  then have "length (xs @ ''d '' @ ys @ ''h remaining'') = length ''OVERDUE''"
    by (rule arg_cong)
  then show False by simp
qed

lemma getSLACountdown_future:
  assumes "now < e"
  shows "getSLACountdown now (Some e) =
     (if 86400000 \<le> e - now then
        \<lparr>sla_text = text_of_nat (nat ((e - now) div 86400000)) @ ''d ''
            @ text_of_nat (nat ((e - now) div 3600000 mod 24)) @ ''h remaining'',
         sla_color = (if e - now < 172800000 then ''text-warning-400''
                      else ''text-success-400''),
         sla_urgent = (e - now < 172800000)\<rparr>
      else
        \<lparr>sla_text = text_of_nat (nat ((e - now) div 3600000)) @ ''h remaining'',
         sla_color = (if e - now < 46800000 then ''text-danger-400''
                      else ''text-warning-400''),
         sla_urgent = True\<rparr>)"
proof -
  have pos: "0 < e - now" using assms by simp
  show ?thesis
    using pos
    by (simp add: getSLACountdown_def Let_def hours_days day_iff two_days_iff half_day_iff
        del: append.simps)
qed

text \<open>
  C9. For a deadline that is a date, \<^verbatim>\<open>getSLACountdown\<close> returns the urgent
  \<^verbatim>\<open>OVERDUE\<close> object if and only if the deadline is at or before the current time,
  so also at the deadline instant itself. For a later deadline it returns a remaining
  time: from one day on the whole days and the hours beyond them, urgent and in the
  warning colour below two days; below one day the whole hours, always urgent, in the
  danger colour below thirteen hours. That text is never \<^verbatim>\<open>OVERDUE\<close>. A deadline
  text that is no date is not at or before the current time, and its result is the
  urgent text \<^verbatim>\<open>NaNh remaining\<close>.
\<close>

theorem getSLACountdown_overdue_iff:
  "getSLACountdown now (Some e) =
     (if e \<le> now then
        \<lparr>sla_text = ''OVERDUE'', sla_color = ''text-danger-400'', sla_urgent = True\<rparr>
      else if 86400000 \<le> e - now then
        \<lparr>sla_text = text_of_nat (nat ((e - now) div 86400000)) @ ''d ''
            @ text_of_nat (nat ((e - now) div 3600000 mod 24)) @ ''h remaining'',
         sla_color = (if e - now < 172800000 then ''text-warning-400''
                      else ''text-success-400''),
         sla_urgent = (e - now < 172800000)\<rparr>
      else
        \<lparr>sla_text = text_of_nat (nat ((e - now) div 3600000)) @ ''h remaining'',
         sla_color = (if e - now < 46800000 then ''text-danger-400''
                      else ''text-warning-400''),
         sla_urgent = True\<rparr>)
   \<and> (getSLACountdown now (Some e) =
        \<lparr>sla_text = ''OVERDUE'', sla_color = ''text-danger-400'', sla_urgent = True\<rparr>)
       = (e \<le> now)
   \<and> (sla_text (getSLACountdown now (Some e)) = ''OVERDUE'') = (e \<le> now)
   \<and> getSLACountdown now (Some now) =
       \<lparr>sla_text = ''OVERDUE'', sla_color = ''text-danger-400'', sla_urgent = True\<rparr>
   \<and> getSLACountdown now None =
       \<lparr>sla_text = ''NaNh remaining'', sla_color = ''text-warning-400'', sla_urgent = True\<rparr>
   \<and> sla_text (getSLACountdown now None) \<noteq> ''OVERDUE''"
proof (cases "e \<le> now")
  case True
  then show ?thesis by (simp add: getSLACountdown_def)
next
  case False
  then have fut: "now < e" by simp
  have t: "sla_text (getSLACountdown now (Some e)) \<noteq> ''OVERDUE''"
    unfolding getSLACountdown_future [OF fut]
    by (simp add: append_h_remaining_neq append_d_h_remaining_neq del: append.simps)
  then have r: "getSLACountdown now (Some e) \<noteq>
      \<lparr>sla_text = ''OVERDUE'', sla_color = ''text-danger-400'', sla_urgent = True\<rparr>"
    by auto
  have n: "getSLACountdown now None =
       \<lparr>sla_text = ''NaNh remaining'', sla_color = ''text-warning-400'', sla_urgent = True\<rparr>"
    by (simp add: getSLACountdown_def)
  have o: "getSLACountdown now (Some now) =
       \<lparr>sla_text = ''OVERDUE'', sla_color = ''text-danger-400'', sla_urgent = True\<rparr>"
    by (simp add: getSLACountdown_def)
  show ?thesis using False t r n o getSLACountdown_future [OF fut] by simp
qed

theorem getSLACountdown_overdue_iff_witness:
  "getSLACountdown 0 (Some 277200017) =
     \<lparr>sla_text = ''3d 5h remaining'', sla_color = ''text-success-400'', sla_urgent = False\<rparr>
   \<and> getSLACountdown 0 (Some 90000000) =
     \<lparr>sla_text = ''1d 1h remaining'', sla_color = ''text-warning-400'', sla_urgent = True\<rparr>
   \<and> getSLACountdown 0 (Some 1) =
     \<lparr>sla_text = ''0h remaining'', sla_color = ''text-danger-400'', sla_urgent = True\<rparr>"
  using getSLACountdown_overdue_iff [of 0 277200017] getSLACountdown_overdue_iff [of 0 90000000]
    getSLACountdown_overdue_iff [of 0 1]
  by (simp add: text_of_nat.simps digit_char_def)

subsection \<open>Severity score and band\<close>

text \<open>
  C1. For every input of the scorer the severity score is an integer from 0 to 100 (so
  it passes the check constraint of the column), and the band returned is the band of
  that score: critical exactly from 70 on, medium exactly from 40 to 69, low exactly
  below 40. So 39 is low, 40 and 69 are medium and 70 is critical, and every score has
  exactly one band.
\<close>

theorem score_range_and_band:
  "0 \<le> fst (score cfg out sensitivity density)
   \<and> fst (score cfg out sensitivity density) \<le> 100
   \<and> severity_score_check (Some (fst (score cfg out sensitivity density)))
   \<and> snd (score cfg out sensitivity density)
       = priority_band (fst (score cfg out sensitivity density))
   \<and> (priority_band s = Priority_critical) = (70 \<le> s)
   \<and> (priority_band s = Priority_medium) = (40 \<le> s \<and> s < 70)
   \<and> (priority_band s = Priority_low) = (s < 40)
   \<and> priority_band 39 = Priority_low \<and> priority_band 40 = Priority_medium
   \<and> priority_band 69 = Priority_medium \<and> priority_band 70 = Priority_critical"
  by (simp add: score_def Let_def priority_band_def severity_score_check_def)

subsection \<open>Invalid transitions\<close>


text \<open>
  C8. A transition request whose pair of current status and target status is not in the
  transition table fails with \<open>InvalidTransition\<close> and returns the state it was given:
  the complaint is unchanged and the status log has no new entry. The step from
  \<^verbatim>\<open>submitted\<close> to \<^verbatim>\<open>resolved\<close> is such a pair.
\<close>

theorem invalid_transition_noop:
  assumes "status (complaint s) = Some old"
    and "(old, req_target req) \<notin> set transition_table"
  shows "transition req s = (Some InvalidTransition, s)
         \<and> status_log (snd (transition req s)) = status_log s
         \<and> complaint (snd (transition req s)) = complaint s
         \<and> (Submitted, Resolved) \<notin> set transition_table"
  using assms by (simp add: transition_def transition_table_def)

theorem invalid_transition_noop_witness:
  "status (complaint example_submitted) = Some Submitted
   \<and> req_target example_request = Resolved
   \<and> transition example_request example_submitted = (Some InvalidTransition, example_submitted)
   \<and> status_log (snd (transition example_request example_submitted)) = []"
proof -
  have st: "status (complaint example_submitted) = Some Submitted"
    by (simp add: example_submitted_def new_lifecycle_def complaints_default_row_def)
  have tg: "(Submitted, req_target example_request) \<notin> set transition_table"
    by (simp add: example_request_def transition_table_def)
  have lg: "status_log example_submitted = []"
    by (simp add: example_submitted_def new_lifecycle_def)
  from invalid_transition_noop [OF st tg] st lg show ?thesis
    by (simp add: example_request_def)
qed

subsection \<open>The rules of the escalation pass\<close>

lemma escalation_pass_due:
  "escalation_pass now s =
     (case sla_deadline (complaint s) of
        None \<Rightarrow> ([], s)
      | Some d \<Rightarrow>
         if (status (complaint s) = Some Assigned \<or> status (complaint s) = Some In_progress)
            \<and> escalation_rank (escalation_level (complaint s)) < due_level now d
         then (if due_level now d = 1
               then raise_level now Level_1 Warning Officer ''1 day before deadline'' s
               else if due_level now d = 2
               then raise_level now Level_2 Supervisor_escalation Supervisor
                      ''Deadline passed'' s
               else raise_level now Level_3 Admin_escalation Admin ''2+ days overdue'' s)
         else ([], s))"
  by (auto simp: escalation_pass_def Let_def escalation_rank_def interval_days_def
      due_level_def split: option.splits escalation_level.splits)

lemma due_level_le3: "due_level now d \<le> 3"
  by (simp add: due_level_def)

lemma raise_level_fields:
  "escalation_level (complaint (snd (raise_level now lvl k r w s))) = Some lvl"
  "status (complaint (snd (raise_level now lvl k r w s))) = status (complaint s)"
  "sla_deadline (complaint (snd (raise_level now lvl k r w s))) = sla_deadline (complaint s)"
  "status_log (snd (raise_level now lvl k r w s)) = status_log s"
  "map event_kind (fst (raise_level now lvl k r w s)) = [k]"
  by (simp_all add: raise_level_def update_updated_at_def)

lemma escalation_pass_frame:
  "status (complaint (snd (escalation_pass now s))) = status (complaint s)"
  "sla_deadline (complaint (snd (escalation_pass now s))) = sla_deadline (complaint s)"
  "status_log (snd (escalation_pass now s)) = status_log s"
  by (simp_all add: escalation_pass_due raise_level_fields split: option.splits)

text \<open>
  C3. For a complaint with deadline \<open>d\<close> that the pass looks at (status
  \<^verbatim>\<open>assigned\<close> or \<^verbatim>\<open>in_progress\<close>) and a pass at time \<open>now\<close>: in the last day
  before \<open>d\<close> with no level yet, the level becomes 1 and one warning event is emitted;
  from \<open>d\<close> until two days after it with a level below 2, the level becomes 2 and one
  supervisor escalation event is emitted; from two days after \<open>d\<close> on with a level below
  3, the level becomes 3 and one admin escalation event is emitted; in every other case
  the pass returns the state unchanged and emits nothing. A complaint in any other status
  is not touched.
\<close>

theorem escalation_pass_rules:
  assumes "sla_deadline (complaint s) = Some d"
  shows
    "(if status (complaint s) = Some Assigned \<or> status (complaint s) = Some In_progress
      then
        (d - interval_days 1 \<le> now \<and> now < d \<and> escalation_level (complaint s) = None \<longrightarrow>
           escalation_level (complaint (snd (escalation_pass now s))) = Some Level_1
           \<and> map event_kind (fst (escalation_pass now s)) = [Warning])
        \<and> (d \<le> now \<and> now < d + interval_days 2
             \<and> escalation_rank (escalation_level (complaint s)) < 2 \<longrightarrow>
           escalation_level (complaint (snd (escalation_pass now s))) = Some Level_2
           \<and> map event_kind (fst (escalation_pass now s)) = [Supervisor_escalation])
        \<and> (d + interval_days 2 \<le> now
             \<and> escalation_rank (escalation_level (complaint s)) < 3 \<longrightarrow>
           escalation_level (complaint (snd (escalation_pass now s))) = Some Level_3
           \<and> map event_kind (fst (escalation_pass now s)) = [Admin_escalation])
        \<and> (\<not> (d - interval_days 1 \<le> now \<and> now < d \<and> escalation_level (complaint s) = None)
             \<and> \<not> (d \<le> now \<and> now < d + interval_days 2
                    \<and> escalation_rank (escalation_level (complaint s)) < 2)
             \<and> \<not> (d + interval_days 2 \<le> now
                    \<and> escalation_rank (escalation_level (complaint s)) < 3) \<longrightarrow>
           escalation_pass now s = ([], s))
      else escalation_pass now s = ([], s))"
  using assms
  by (auto simp: escalation_pass_def Let_def escalation_rank_def interval_days_def
      raise_level_fields split: option.splits escalation_level.splits)

theorem escalation_pass_rules_witness:
  "sla_deadline (complaint (new_lifecycle (seed_complaint_1 0))) = Some (interval_days 3)
   \<and> status (complaint (new_lifecycle (seed_complaint_1 0))) = Some Assigned
   \<and> escalation_level (complaint (new_lifecycle (seed_complaint_1 0))) = None
   \<and> escalation_level
       (complaint (snd (escalation_pass (interval_days 2) (new_lifecycle (seed_complaint_1 0)))))
       = Some Level_1
   \<and> map event_kind (fst (escalation_pass (interval_days 2) (new_lifecycle (seed_complaint_1 0))))
       = [Warning]"
proof -
  have dl: "sla_deadline (complaint (new_lifecycle (seed_complaint_1 0)))
      = Some (interval_days 3)"
    by (simp add: new_lifecycle_def seed_complaint_1_def)
  have st: "status (complaint (new_lifecycle (seed_complaint_1 0))) = Some Assigned"
    by (simp add: new_lifecycle_def seed_complaint_1_def)
  have lv: "escalation_level (complaint (new_lifecycle (seed_complaint_1 0))) = None"
    by (simp add: new_lifecycle_def seed_complaint_1_def)
  have win: "interval_days 3 - interval_days 1 \<le> interval_days 2
      \<and> interval_days 2 < interval_days 3"
    by (simp add: interval_days_def)
  from escalation_pass_rules [OF dl, of "interval_days 2"] st lv win dl show ?thesis
    by simp
qed

subsection \<open>Escalation is monotone and idempotent\<close>

lemma escalation_pass_rank:
  "escalation_rank (escalation_level (complaint (snd (escalation_pass now s)))) =
     (case sla_deadline (complaint s) of
        None \<Rightarrow> escalation_rank (escalation_level (complaint s))
      | Some d \<Rightarrow>
          if status (complaint s) = Some Assigned \<or> status (complaint s) = Some In_progress
          then max (escalation_rank (escalation_level (complaint s))) (due_level now d)
          else escalation_rank (escalation_level (complaint s)))"
  using due_level_le3 [of now "the (sla_deadline (complaint s))"]
  by (auto simp: escalation_pass_due raise_level_fields escalation_rank_def max_def
      split: option.splits)

lemma escalation_pass_monotone:
  "escalation_rank (escalation_level (complaint s))
     \<le> escalation_rank (escalation_level (complaint (snd (escalation_pass now s))))"
  by (simp add: escalation_pass_rank split: option.splits)

lemma escalation_pass_at_target:
  assumes "sla_deadline (complaint s) = Some d"
    and "due_level now d \<le> escalation_rank (escalation_level (complaint s))"
  shows "escalation_pass now s = ([], s)"
  using assms by (simp add: escalation_pass_due)

lemma escalation_pass_twice:
  "escalation_pass now (snd (escalation_pass now s)) = ([], snd (escalation_pass now s))"
proof (cases "sla_deadline (complaint s)")
  case None
  then show ?thesis by (simp add: escalation_pass_due)
next
  case (Some d)
  let ?s' = "snd (escalation_pass now s)"
  have dl: "sla_deadline (complaint ?s') = Some d"
    using Some by (simp add: escalation_pass_frame)
  show ?thesis
  proof (cases "status (complaint s) = Some Assigned \<or> status (complaint s) = Some In_progress")
    case True
    then have "due_level now d \<le> escalation_rank (escalation_level (complaint ?s'))"
      using Some by (simp add: escalation_pass_rank)
    with dl show ?thesis by (rule escalation_pass_at_target)
  next
    case False
    then show ?thesis using Some by (simp add: escalation_pass_due)
  qed
qed

lemma scheduler_pass_twice:
  "scheduler_pass now (snd (scheduler_pass now store)) = ([], snd (scheduler_pass now store))"
  by (induction store) (simp_all add: scheduler_pass_def escalation_pass_twice)

lemma transition_escalation_level:
  "escalation_level (complaint (snd (transition req s))) = escalation_level (complaint s)"
  by (auto simp: transition_def guard_effect_def update_updated_at_def
      split: option.splits sum.splits complaint_status.splits if_splits prod.splits)

lemma apply_op_monotone:
  "escalation_rank (escalation_level (complaint s))
     \<le> escalation_rank (escalation_level (complaint (apply_op oper s)))"
  by (cases oper)
    (simp_all add: transition_escalation_level escalation_pass_monotone rescore_def
      update_updated_at_def)

lemma run_monotone:
  "escalation_rank (escalation_level (complaint s))
     \<le> escalation_rank (escalation_level (complaint (run ops s)))"
  unfolding run_def
proof (induction ops arbitrary: s)
  case Nil
  show ?case by simp
next
  case (Cons oper ops)
  have "escalation_rank (escalation_level (complaint s))
      \<le> escalation_rank (escalation_level (complaint (apply_op oper s)))"
    by (rule apply_op_monotone)
  also have "\<dots> \<le> escalation_rank
      (escalation_level (complaint (fold apply_op ops (apply_op oper s))))"
    by (rule Cons.IH)
  finally show ?case by simp
qed

text \<open>
  C4. The escalation level of a complaint never decreases: not in one pass, and not
  over any history of passes at any times, transitions and re-scorings. A pass over a
  complaint that already holds the level the rules aim at, or a higher one, returns the
  state unchanged and emits no event; in particular a second pass at the same time,
  over one complaint or over all of them, changes nothing and emits nothing.
\<close>

theorem escalation_monotone_idempotent:
  "escalation_rank (escalation_level (complaint s))
     \<le> escalation_rank (escalation_level (complaint (snd (escalation_pass now s))))
   \<and> escalation_rank (escalation_level (complaint s))
       \<le> escalation_rank (escalation_level (complaint (run ops s)))
   \<and> (sla_deadline (complaint s) = Some d
        \<and> due_level now d \<le> escalation_rank (escalation_level (complaint s)) \<longrightarrow>
      escalation_pass now s = ([], s))
   \<and> escalation_pass now (snd (escalation_pass now s)) = ([], snd (escalation_pass now s))
   \<and> scheduler_pass now (snd (scheduler_pass now store))
       = ([], snd (scheduler_pass now store))"
  using escalation_pass_monotone [of s now] run_monotone [of s ops]
    escalation_pass_at_target [of s d now] escalation_pass_twice [of now s]
    scheduler_pass_twice [of now store]
  by blast

theorem escalation_monotone_idempotent_witness:
  "sla_deadline (complaint (new_lifecycle ((seed_complaint_1 0)\<lparr>escalation_level := Some Level_2\<rparr>)))
     = Some (interval_days 3)
   \<and> due_level (interval_days 3) (interval_days 3) = 2
   \<and> escalation_pass (interval_days 3)
        (new_lifecycle ((seed_complaint_1 0)\<lparr>escalation_level := Some Level_2\<rparr>))
       = ([], new_lifecycle ((seed_complaint_1 0)\<lparr>escalation_level := Some Level_2\<rparr>))"
proof -
  let ?s = "new_lifecycle ((seed_complaint_1 0)\<lparr>escalation_level := Some Level_2\<rparr>)"
  have dl: "sla_deadline (complaint ?s) = Some (interval_days 3)"
    by (simp add: new_lifecycle_def seed_complaint_1_def)
  have due: "due_level (interval_days 3) (interval_days 3) = 2"
    by (simp add: due_level_def interval_days_def)
  have rk: "escalation_rank (escalation_level (complaint ?s)) = 2"
    by (simp add: new_lifecycle_def escalation_rank_def)
  from escalation_monotone_idempotent [of ?s "interval_days 3" "[]" "interval_days 3" "[]"]
    dl due rk
  show ?thesis by simp
qed

subsection \<open>The SLA deadline is set on assignment and never changes\<close>

















subsection \<open>The status values\<close>

text \<open>
  C6. A text is accepted as a \<^verbatim>\<open>complaint_status\<close> exactly when it is the label of
  a status, and there are exactly eight statuses: \<^verbatim>\<open>submitted\<close>, \<^verbatim>\<open>validated\<close>,
  \<^verbatim>\<open>ai_processed\<close>, \<^verbatim>\<open>assigned\<close>, \<^verbatim>\<open>in_progress\<close>, \<^verbatim>\<open>resolved\<close>,
  \<^verbatim>\<open>rejected\<close> and \<^verbatim>\<open>escalated\<close>, the same eight the tracking page has badges
  for. The escalation level is a column of its own: whether a row is accepted by the
  table does not depend on its status or its escalation level, so every status can go
  with every level.
\<close>

theorem complaint_status_eight_labels:
  "(complaint_status_in t = Some st) = (t = complaint_status_out st)
   \<and> set complaint_status_range = UNIV
   \<and> distinct complaint_status_range \<and> length complaint_status_range = 8
   \<and> map complaint_status_out complaint_status_range =
       [''submitted'', ''validated'', ''ai_processed'', ''assigned'', ''in_progress'',
        ''resolved'', ''rejected'', ''escalated'']
   \<and> map fst statusColors = map complaint_status_out complaint_status_range
   \<and> isl (insert_complaint today (new\<lparr>status := st', escalation_level := lv\<rparr>) complaints)
       = isl (insert_complaint today new complaints)"
proof -
  have a: "(complaint_status_in t = Some st) = (t = complaint_status_out st)"
    by (cases st) (auto simp: complaint_status_in_def complaint_status_range_def
        complaint_status_out_def)
  have b: "set complaint_status_range = UNIV"
  proof -
    have "x \<in> set complaint_status_range" for x
      by (cases x) (simp_all add: complaint_status_range_def)
    then show ?thesis by blast
  qed
  have c: "isl (insert_complaint today (new\<lparr>status := st', escalation_level := lv\<rparr>) complaints)
       = isl (insert_complaint today new complaints)"
  proof (cases "complaints_coerce new")
    case (Inl e)
    then show ?thesis by (simp add: insert_complaint_def complaints_coerce_status)
  next
    case (Inr r)
    have "isl (insert_complaint today (new\<lparr>status := st', escalation_level := lv\<rparr>) complaints)
        = isl (insert_complaint today new complaints)"
      unfolding insert_complaint_def complaints_coerce_status Inr
      by (simp add: trg_complaint_number_def trg_complaint_number_when_def
          generate_complaint_number_def Let_def split: option.splits)
    then show ?thesis .
  qed
  show ?thesis using a b c
    by (simp add: complaint_status_range_def complaint_status_out_def statusColors_def)
qed

lemma insert_escalated_seed:
  "insert_complaint \<lparr>year = 2026, month = 2, day = 25\<rparr>
        ((seed_complaint_1 0)\<lparr>status := Some Escalated\<rparr>) []
       = Inr [(seed_complaint_1 0)\<lparr>status := Some Escalated\<rparr>]"
  by (simp add: insert_complaint_def complaints_coerce_def nullable_def varchar_def decimal_def
      round_half_away_def int4_def Let_def floor_numeral_div trg_complaint_number_def
      trg_complaint_number_when_def seed_complaint_1_def severity_score_check_def)

text \<open>The text \<^verbatim>\<open>'escalated'\<close> is a status, it is none of the other seven, and a
  row holding it is accepted by the table: the first seed row with that status inserts
  into the empty table.\<close>

theorem escalated_status_counterexample:
  "complaint_status_in ''escalated'' = Some Escalated
   \<and> Escalated \<notin> set [Submitted, Validated, Ai_processed, Assigned, In_progress, Resolved,
        Rejected]
   \<and> insert_complaint \<lparr>year = 2026, month = 2, day = 25\<rparr>
        ((seed_complaint_1 0)\<lparr>status := Some Escalated\<rparr>) []
       = Inr [(seed_complaint_1 0)\<lparr>status := Some Escalated\<rparr>]
   \<and> \<not> (\<forall>c complaints.
          insert_complaint \<lparr>year = 2026, month = 2, day = 25\<rparr> c [] = Inr complaints
          \<longrightarrow> status c \<in> Some ` set [Submitted, Validated, Ai_processed, Assigned,
                In_progress, Resolved, Rejected])"
proof -
  have neg: "\<not> (\<forall>c complaints.
          insert_complaint \<lparr>year = 2026, month = 2, day = 25\<rparr> c [] = Inr complaints
          \<longrightarrow> status c \<in> Some ` set [Submitted, Validated, Ai_processed, Assigned,
                In_progress, Resolved, Rejected])"
  proof
    assume "\<forall>c complaints.
          insert_complaint \<lparr>year = 2026, month = 2, day = 25\<rparr> c [] = Inr complaints
          \<longrightarrow> status c \<in> Some ` set [Submitted, Validated, Ai_processed, Assigned,
                In_progress, Resolved, Rejected]"
    with insert_escalated_seed
    have "status ((seed_complaint_1 0)\<lparr>status := Some Escalated\<rparr>)
        \<in> Some ` set [Submitted, Validated, Ai_processed, Assigned, In_progress, Resolved,
              Rejected]"
      by blast
    then show False by (simp add: image_iff)
  qed
  show ?thesis using insert_escalated_seed neg
    by (simp add: complaint_status_in_def complaint_status_range_def complaint_status_out_def)
qed

subsection \<open>The SLA deadline of stored complaints\<close>

text \<open>
  C5. A complaint inserted with the column defaults has status \<^verbatim>\<open>submitted\<close> and no
  SLA deadline, also after the insert trigger has run. A deadline is not tied to the
  status \<^verbatim>\<open>assigned\<close>: each of the three seed complaints, whatever its status,
  carries the deadline of its band (the instant of the insert plus 3, 7 or 10 days), and
  the third one is still \<^verbatim>\<open>ai_processed\<close>, with no officer, and has its deadline of
  10 days already.
\<close>

theorem sla_deadline_before_assignment:
  "status (complaints_default_row u now cit cat loc lat lon) = Some Submitted
   \<and> sla_deadline (complaints_default_row u now cit cat loc lat lon) = None
   \<and> (case insert_complaint today (complaints_default_row u now cit cat loc lat lon) complaints
       of Inl e \<Rightarrow> True
        | Inr complaints' \<Rightarrow>
            status (last complaints') = Some Submitted
            \<and> sla_deadline (last complaints') = None)
   \<and> list_all (\<lambda>c. \<exists>p. severity_priority c = Some p
                    \<and> sla_deadline c = Some (t + interval_days (sla_days p)))
       (seed_complaints t)
   \<and> map status (seed_complaints t) = [Some Assigned, Some In_progress, Some Ai_processed]
   \<and> assigned_officer_id (seed_complaint_3 t) = None
   \<and> sla_deadline (seed_complaint_3 t) = Some (t + interval_days 10)"
proof -
  let ?row = "complaints_default_row u now cit cat loc lat lon"
  have ins: "case insert_complaint today ?row complaints
       of Inl e \<Rightarrow> True
        | Inr complaints' \<Rightarrow>
            status (last complaints') = Some Submitted
            \<and> sla_deadline (last complaints') = None"
  proof (cases "complaints_coerce ?row")
    case (Inl e)
    then show ?thesis by (simp add: insert_complaint_def)
  next
    case (Inr new1)
    have "status new1 = Some Submitted \<and> sla_deadline new1 = None"
      using complaints_coerce_fields [OF Inr] by (simp add: complaints_default_row_def)
    then show ?thesis using Inr
      by (simp add: insert_complaint_def trg_complaint_number_def
          generate_complaint_number_def Let_def split: option.splits)
  qed
  have dflt: "status ?row = Some Submitted \<and> sla_deadline ?row = None"
    by (simp add: complaints_default_row_def)
  have seeds: "list_all (\<lambda>c. \<exists>p. severity_priority c = Some p
                    \<and> sla_deadline c = Some (t + interval_days (sla_days p)))
       (seed_complaints t)
   \<and> map status (seed_complaints t) = [Some Assigned, Some In_progress, Some Ai_processed]
   \<and> assigned_officer_id (seed_complaint_3 t) = None
   \<and> sla_deadline (seed_complaint_3 t) = Some (t + interval_days 10)"
    by (simp add: seed_complaints_def seed_complaint_1_def
        seed_complaint_2_def seed_complaint_3_def sla_days_def)
  from dflt ins seeds show ?thesis by blast
qed

text \<open>The seed rows insert into the empty table as they are, and the third of them is in
  status \<^verbatim>\<open>ai_processed\<close> with a deadline.\<close>

theorem ai_processed_with_deadline_counterexample:
  "insert_complaints \<lparr>year = 2026, month = 2, day = 25\<rparr> (seed_complaints 0) []
     = Inr (seed_complaints 0)
   \<and> status (seed_complaint_3 0) = Some Ai_processed
   \<and> sla_deadline (seed_complaint_3 0) = Some (interval_days 10)
   \<and> \<not> (\<forall>c \<in> set (seed_complaints 0).
          (status c = Some Submitted \<or> status c = Some Validated
             \<or> status c = Some Ai_processed)
            \<longrightarrow> sla_deadline c = None)"
  by (simp add: seed_complaints_def insert_seed_complaints,
      simp add: seed_complaint_1_def seed_complaint_2_def seed_complaint_3_def)

subsection \<open>Complaint numbers\<close>

lemma replicate_numeral: "replicate (numeral k) x = x # replicate (pred_numeral k) x"
  by (simp add: numeral_eq_Suc)

lemma digit_char_code: "d < 10 \<Longrightarrow> (of_char (digit_char d) :: nat) = 48 + d"
proof -
  assume "d < 10"
  then consider "d = 0" | "d = 1" | "d = 2" | "d = 3" | "d = 4" | "d = 5" | "d = 6"
    | "d = 7" | "d = 8" | "d = 9"
    by atomize_elim arith
  then show ?thesis by cases (simp_all add: digit_char_def)
qed

lemma digit_char_mod: "digit_char (n mod 10) = digit_char n"
  by (simp add: digit_char_def)

lemma digit_char_less:
  assumes "a mod 10 < b mod 10"
  shows "digit_char a < digit_char b"
proof -
  have "(of_char (digit_char (a mod 10)) :: nat) < of_char (digit_char (b mod 10))"
    using assms by (simp add: digit_char_code)
  then show ?thesis by (simp add: less_char_def digit_char_mod)
qed

lemma length_fixed_digits: "length (fixed_digits w n) = w"
  by (induction w arbitrary: n) simp_all

lemma fixed_digits_less:
  "a < b \<Longrightarrow> b < 10 ^ w \<Longrightarrow> fixed_digits w a < fixed_digits w b"
proof (induction w arbitrary: a b)
  case 0
  then show ?case by simp
next
  case (Suc w)
  have le: "a div 10 \<le> b div 10" using Suc.prems(1) by (simp add: div_le_mono)
  have bd: "b div 10 < 10 ^ w" using Suc.prems(2) by (simp add: less_mult_imp_div_less)
  show ?case
  proof (cases "a div 10 < b div 10")
    case True
    then have "fixed_digits w (a div 10) < fixed_digits w (b div 10)"
      using bd by (rule Suc.IH)
    then have "(fixed_digits w (a div 10), fixed_digits w (b div 10)) \<in> lexord {(u, v). u < v}"
      by (simp add: list_less_def)
    then have "(fixed_digits w (a div 10) @ [digit_char a],
        fixed_digits w (b div 10) @ [digit_char b]) \<in> lexord {(u, v). u < v}"
      by (rule lexord_sufI) (simp add: length_fixed_digits)
    then show ?thesis by (simp add: list_less_def)
  next
    case False
    with le have eq: "a div 10 = b div 10" by simp
    have "a mod 10 < b mod 10"
    proof (rule ccontr)
      assume "\<not> a mod 10 < b mod 10"
      then have m: "b mod 10 \<le> a mod 10" by (simp only: not_less)
      have "b = b div 10 * 10 + b mod 10" by (simp only: div_mult_mod_eq)
      also have "\<dots> \<le> b div 10 * 10 + a mod 10" using m by (rule add_left_mono)
      also have "\<dots> = a div 10 * 10 + a mod 10" by (simp only: eq)
      also have "\<dots> = a" by (simp only: div_mult_mod_eq)
      finally have "b \<le> a" .
      with Suc.prems(1) show False by linarith
    qed
    then have "digit_char a < digit_char b" by (rule digit_char_less)
    then have "([digit_char a], [digit_char b]) \<in> lexord {(u, v). u < v}"
      by simp
    then have "(fixed_digits w (b div 10) @ [digit_char a],
        fixed_digits w (b div 10) @ [digit_char b]) \<in> lexord {(u, v). u < v}"
      by (rule lexord_append_leftI)
    then show ?thesis using eq by (simp add: list_less_def)
  qed
qed

lemma fixed_digits_neq:
  assumes "a \<noteq> b" and "a < 10 ^ w" and "b < 10 ^ w"
  shows "fixed_digits w a \<noteq> fixed_digits w b"
proof (cases "a < b")
  case True
  then have "fixed_digits w a < fixed_digits w b" using assms(3) by (rule fixed_digits_less)
  then show ?thesis by simp
next
  case False
  with assms(1) have "b < a" by simp
  then have "fixed_digits w b < fixed_digits w a" using assms(2) by (rule fixed_digits_less)
  then show ?thesis by simp
qed

lemma fixed_digits_zero: "fixed_digits w 0 = replicate w (CHR ''0'')"
  by (induction w) (simp_all add: digit_char_def replicate_append_same)

lemma fixed_digits_append:
  "y < 10 ^ b \<Longrightarrow> fixed_digits (a + b) (x * 10 ^ b + y) = fixed_digits a x @ fixed_digits b y"
proof (induction b arbitrary: y)
  case 0
  then show ?case by simp
next
  case (Suc b)
  have bd: "y div 10 < 10 ^ b" using Suc.prems by (simp add: less_mult_imp_div_less)
  have dv: "(x * 10 ^ Suc b + y) div 10 = x * 10 ^ b + y div 10"
  proof -
    have "x * 10 ^ Suc b + y = 10 * (x * 10 ^ b) + y" by simp
    then show ?thesis by simp
  qed
  have md: "digit_char (x * 10 ^ Suc b + y) = digit_char y"
  proof -
    have e: "x * 10 ^ Suc b = 10 * (x * 10 ^ b)" by simp
    have "(10 * (x * 10 ^ b) + y) mod 10 = y mod 10" by (rule mod_mult_self4)
    then have "(x * 10 ^ Suc b + y) mod 10 = y mod 10" by (simp only: e)
    then show ?thesis by (simp only: digit_char_def)
  qed
  have "fixed_digits (a + Suc b) (x * 10 ^ Suc b + y)
      = fixed_digits (a + b) ((x * 10 ^ Suc b + y) div 10) @ [digit_char (x * 10 ^ Suc b + y)]"
    by simp
  also have "\<dots> = fixed_digits (a + b) (x * 10 ^ b + y div 10) @ [digit_char y]"
    by (simp only: dv md)
  also have "\<dots> = (fixed_digits a x @ fixed_digits b (y div 10)) @ [digit_char y]"
    by (simp only: Suc.IH [OF bd])
  also have "\<dots> = fixed_digits a x @ fixed_digits (Suc b) y" by simp
  finally show ?case .
qed


lemma length_text_of_nat: "n < 10 ^ w \<Longrightarrow> 0 < w \<Longrightarrow> length (text_of_nat n) \<le> w"
proof (induction w arbitrary: n)
  case 0
  then show ?case by simp
next
  case (Suc w)
  show ?case
  proof (cases "n < 10")
    case True
    then show ?thesis by (simp add: text_of_nat.simps [of n])
  next
    case False
    then have pos: "0 < w" using Suc.prems(1) by (cases w) simp_all
    have "n div 10 < 10 ^ w" using Suc.prems(1) by (simp add: less_mult_imp_div_less)
    then have "length (text_of_nat (n div 10)) \<le> w" using pos by (rule Suc.IH)
    then show ?thesis using False by (simp add: text_of_nat.simps [of n])
  qed
qed

lemma zero_padded_text_of_nat:
  "n < 10 ^ w \<Longrightarrow> 0 < w \<Longrightarrow>
     replicate (w - length (text_of_nat n)) (CHR ''0'') @ text_of_nat n = fixed_digits w n"
proof (induction w arbitrary: n)
  case 0
  then show ?case by simp
next
  case (Suc w)
  show ?case
  proof (cases "n < 10")
    case True
    then show ?thesis
      by (simp add: text_of_nat.simps [of n] fixed_digits_zero)
  next
    case False
    then have pos: "0 < w" using Suc.prems(1) by (cases w) simp_all
    have bd: "n div 10 < 10 ^ w" using Suc.prems(1) by (simp add: less_mult_imp_div_less)
    have len: "length (text_of_nat (n div 10)) \<le> w" using bd pos by (rule length_text_of_nat)
    have "replicate (w - length (text_of_nat (n div 10))) (CHR ''0'') @ text_of_nat (n div 10)
        = fixed_digits w (n div 10)"
      using bd pos by (rule Suc.IH)
    then show ?thesis using False len
      by (simp add: text_of_nat.simps [of n] Suc_diff_le)
  qed
qed

lemma lpad_text_of_nat: "n < 100000 \<Longrightarrow> lpad (text_of_nat n) 5 ''0'' = fixed_digits 5 n"
proof -
  assume n: "n < 100000"
  then have bd: "n < 10 ^ 5" by simp
  have len: "length (text_of_nat n) \<le> 5" using bd by (rule length_text_of_nat) simp
  have pad: "replicate (5 - length (text_of_nat n)) (CHR ''0'') @ text_of_nat n = fixed_digits 5 n"
    using bd by (rule zero_padded_text_of_nat) simp
  have cc: "concat (replicate k ''0'') = replicate k (CHR ''0'')" for k
    by (induction k) simp_all
  show ?thesis
  proof (cases "length (text_of_nat n) = 5")
    case True
    then show ?thesis using pad by (simp add: lpad_def)
  next
    case False
    with len have "length (text_of_nat n) < 5" by simp
    then show ?thesis using pad by (simp add: lpad_def cc)
  qed
qed

lemma to_char_YYYYMMDD_fixed:
  assumes "valid_date d"
  shows "to_char_YYYYMMDD d = fixed_digits 8 (year d * 10000 + (month d * 100 + day d))"
proof -
  have y: "year d < 10 ^ 4" and m: "month d < 10 ^ 2" and dd: "day d < 10 ^ 2"
    using assms by (simp_all add: valid_date_def)
  have zy: "zero_fill 4 (year d) = fixed_digits 4 (year d)"
    unfolding zero_fill_def using y by (rule zero_padded_text_of_nat) simp
  have zm: "zero_fill 2 (month d) = fixed_digits 2 (month d)"
    unfolding zero_fill_def using m by (rule zero_padded_text_of_nat) simp
  have zd: "zero_fill 2 (day d) = fixed_digits 2 (day d)"
    unfolding zero_fill_def using dd by (rule zero_padded_text_of_nat) simp
  have md: "month d * 100 + day d < 10 ^ 4" using m dd by simp
  have "fixed_digits (4 + 4) (year d * 10 ^ 4 + (month d * 100 + day d))
      = fixed_digits 4 (year d) @ fixed_digits 4 (month d * 100 + day d)"
    using md by (rule fixed_digits_append)
  moreover have "fixed_digits (2 + 2) (month d * 10 ^ 2 + day d)
      = fixed_digits 2 (month d) @ fixed_digits 2 (day d)"
    using dd by (rule fixed_digits_append)
  ultimately have "fixed_digits 8 (year d * 10000 + (month d * 100 + day d))
      = fixed_digits 4 (year d) @ fixed_digits 2 (month d) @ fixed_digits 2 (day d)"
    by simp
  then show ?thesis by (simp add: to_char_YYYYMMDD_def zy zm zd)
qed

lemma date_number_bound:
  "valid_date d \<Longrightarrow> year d * 10000 + (month d * 100 + day d) < 10 ^ 8"
  by (simp add: valid_date_def)

lemma date_le_number:
  assumes "valid_date a" and "valid_date b" and "date_le a b"
  shows "year a * 10000 + (month a * 100 + day a) \<le> year b * 10000 + (month b * 100 + day b)"
  using assms unfolding valid_date_def date_le_def by linarith

lemma date_neq_number:
  assumes "valid_date a" and "valid_date b"
    and "year a \<noteq> year b \<or> month a \<noteq> month b \<or> day a \<noteq> day b"
  shows "year a * 10000 + (month a * 100 + day a) \<noteq> year b * 10000 + (month b * 100 + day b)"
proof
  assume eq: "year a * 10000 + (month a * 100 + day a)
      = year b * 10000 + (month b * 100 + day b)"
  have ba: "month a \<le> 12" "day a \<le> 31" and bb: "month b \<le> 12" "day b \<le> 31"
    using assms(1,2) by (simp_all add: valid_date_def)
  have y: "year a = year b"
  proof (rule ccontr)
    assume "year a \<noteq> year b"
    then consider "year a < year b" | "year b < year a" by linarith
    then show False using eq ba bb by cases linarith+
  qed
  have m: "month a = month b"
  proof (rule ccontr)
    assume "month a \<noteq> month b"
    then consider "month a < month b" | "month b < month a" by linarith
    then show False using eq y ba bb by cases linarith+
  qed
  have "day a = day b" using eq y m by simp
  with y m assms(3) show False by simp
qed


lemma complaint_number_text_fixed:
  assumes "valid_date d" and "n < 99999"
  shows "complaint_number_text d n
    = ''AQS-'' @ fixed_digits 8 (year d * 10000 + (month d * 100 + day d)) @ ''-''
        @ fixed_digits 5 (n + 1)"
  using assms by (simp add: complaint_number_text_def to_char_YYYYMMDD_fixed lpad_text_of_nat)

lemma complaint_number_text_date_neq:
  assumes "valid_date a" and "valid_date b"
    and "year a \<noteq> year b \<or> month a \<noteq> month b \<or> day a \<noteq> day b"
  shows "complaint_number_text a n \<noteq> complaint_number_text b m"
proof
  assume eq: "complaint_number_text a n = complaint_number_text b m"
  let ?A = "fixed_digits 8 (year a * 10000 + (month a * 100 + day a))"
  let ?B = "fixed_digits 8 (year b * 10000 + (month b * 100 + day b))"
  have "?A @ (''-'' @ lpad (text_of_nat (n + 1)) 5 ''0'')
      = ?B @ (''-'' @ lpad (text_of_nat (m + 1)) 5 ''0'')"
    using eq assms(1,2) by (simp add: complaint_number_text_def to_char_YYYYMMDD_fixed)
  then have "?A = ?B" by (simp add: append_eq_append_conv length_fixed_digits)
  moreover have "?A \<noteq> ?B"
    using date_neq_number [OF assms] date_number_bound [OF assms(1)]
      date_number_bound [OF assms(2)]
    by (rule fixed_digits_neq)
  ultimately show False by simp
qed

lemma complaint_number_text_less:
  assumes "valid_date a" and "valid_date b" and "date_le a b" and "n < m" and "m < 99999"
  shows "complaint_number_text a n < complaint_number_text b m"
proof -
  let ?A = "fixed_digits 8 (year a * 10000 + (month a * 100 + day a))"
  let ?B = "fixed_digits 8 (year b * 10000 + (month b * 100 + day b))"
  let ?r = "{(u :: char, v). u < v}"
  have seq: "(fixed_digits 5 (n + 1), fixed_digits 5 (m + 1)) \<in> lexord ?r"
  proof -
    have "fixed_digits 5 (n + 1) < fixed_digits 5 (m + 1)"
      using assms(4,5) by (intro fixed_digits_less) simp_all
    then show ?thesis by (simp add: list_less_def)
  qed
  have "(?A @ ''-'' @ fixed_digits 5 (n + 1), ?B @ ''-'' @ fixed_digits 5 (m + 1)) \<in> lexord ?r"
  proof (cases "year a * 10000 + (month a * 100 + day a)
      = year b * 10000 + (month b * 100 + day b)")
    case True
    have "(''-'' @ fixed_digits 5 (n + 1), ''-'' @ fixed_digits 5 (m + 1)) \<in> lexord ?r"
      using seq by (rule lexord_append_leftI)
    then have "(?B @ ''-'' @ fixed_digits 5 (n + 1), ?B @ ''-'' @ fixed_digits 5 (m + 1))
        \<in> lexord ?r"
      by (rule lexord_append_leftI)
    then show ?thesis by (simp only: True)
  next
    case False
    then have "year a * 10000 + (month a * 100 + day a)
        < year b * 10000 + (month b * 100 + day b)"
      using date_le_number [OF assms(1,2,3)] by simp
    then have "?A < ?B" using date_number_bound [OF assms(2)] by (rule fixed_digits_less)
    then have "(?A, ?B) \<in> lexord ?r" by (simp add: list_less_def)
    then show ?thesis by (rule lexord_sufI) (simp add: length_fixed_digits)
  qed
  then have "(''AQS-'' @ ?A @ ''-'' @ fixed_digits 5 (n + 1),
      ''AQS-'' @ ?B @ ''-'' @ fixed_digits 5 (m + 1)) \<in> lexord ?r"
    by (rule lexord_append_leftI)
  then show ?thesis
    using assms by (simp add: complaint_number_text_fixed list_less_def)
qed

lemma insert_complaint_distinct:
  assumes "distinct (map complaint_number complaints)"
    and "insert_complaint today new complaints = Inr complaints'"
  shows "distinct (map complaint_number complaints')"
  using assms
  by (auto simp: insert_complaint_def Let_def split: sum.splits option.splits if_splits)

lemma insert_complaint_not_null:
  assumes "None \<notin> set (map complaint_number complaints)"
    and "insert_complaint today new complaints = Inr complaints'"
  shows "None \<notin> set (map complaint_number complaints')"
  using assms
  by (auto simp: insert_complaint_def Let_def split: sum.splits option.splits if_splits)

lemma run_inserts_distinct:
  "distinct (map complaint_number complaints) \<Longrightarrow>
     distinct (map complaint_number (run_inserts reqs complaints))"
proof (induction reqs arbitrary: complaints)
  case Nil
  then show ?case by simp
next
  case (Cons r reqs)
  obtain today new where r: "r = (today, new)" by (cases r)
  show ?case
  proof (cases "insert_complaint today new complaints")
    case (Inl e)
    then show ?thesis using Cons r by simp
  next
    case (Inr complaints')
    then have "distinct (map complaint_number complaints')"
      using Cons.prems insert_complaint_distinct by blast
    then show ?thesis using Cons.IH Inr r by simp
  qed
qed

lemma run_inserts_not_null:
  "None \<notin> set (map complaint_number complaints) \<Longrightarrow>
     None \<notin> set (map complaint_number (run_inserts reqs complaints))"
proof (induction reqs arbitrary: complaints)
  case Nil
  then show ?case by simp
next
  case (Cons r reqs)
  obtain today new where r: "r = (today, new)" by (cases r)
  show ?case
  proof (cases "insert_complaint today new complaints")
    case (Inl e)
    then show ?thesis using Cons r by simp
  next
    case (Inr complaints')
    then have "None \<notin> set (map complaint_number complaints')"
      using Cons.prems insert_complaint_not_null by blast
    then show ?thesis using Cons.IH Inr r by simp
  qed
qed

lemma insert_complaint_stored_number:
  assumes "complaint_number new0 = Some s0" and "s0 \<noteq> []"
    and "insert_complaint today new0 complaints = Inr complaints'"
  shows "complaint_number (last complaints') = Some (take 20 s0)"
proof -
  from assms(3) obtain new1 where co: "complaints_coerce new0 = Inr new1"
    by (auto simp: insert_complaint_def split: sum.splits)
  have n1: "complaint_number new1 = Some (take 20 s0)"
    using complaints_coerce_number [OF co] assms(1) by simp
  have "take 20 s0 \<noteq> []" using assms(2) by (cases s0) simp_all
  then have "trg_complaint_number today complaints new1 = new1"
    using n1 by (simp add: trg_complaint_number_def trg_complaint_number_when_def)
  then have "complaints' = complaints @ [new1]"
    using assms(3) co
    by (auto simp: insert_complaint_def Let_def split: option.splits if_splits)
  then show ?thesis using n1 by simp
qed

text \<open>
  C7. Stored complaint numbers are never NULL and pairwise distinct, whatever sequence
  of inserts built the table, because an insert whose number is already present is
  rejected. The trigger generates a number exactly when the one it receives is NULL or
  empty, and the number generated is the text for the current date and row count; a
  supplied non-empty number is stored cut to 20 characters, so as supplied when it has
  at most 20. For dates with a four-digit year and row counts below 99999, the number
  generated for a larger row count on the same or a later date is strictly greater in
  the order of strings, so the two differ, and numbers generated on different dates
  differ whatever the row counts.
\<close>

theorem complaint_numbers_unique:
  "distinct (map complaint_number (run_inserts reqs []))
   \<and> None \<notin> set (map complaint_number (run_inserts reqs []))
   \<and> complaint_number (trg_complaint_number today complaints new)
       = (if complaint_number new = None \<or> complaint_number new = Some []
          then Some (complaint_number_text today (length complaints))
          else complaint_number new)
   \<and> (complaint_number new0 = Some s0 \<and> s0 \<noteq> []
        \<and> insert_complaint today new0 complaints = Inr complaints' \<longrightarrow>
        complaint_number (last complaints') = Some (take 20 s0)
        \<and> (length s0 \<le> 20 \<longrightarrow> complaint_number (last complaints') = Some s0))
   \<and> (valid_date d1 \<and> valid_date d2 \<and> date_le d1 d2 \<and> n < m \<and> m < 99999 \<longrightarrow>
        complaint_number_text d1 n < complaint_number_text d2 m
        \<and> complaint_number_text d1 n \<noteq> complaint_number_text d2 m)
   \<and> (valid_date d1 \<and> valid_date d2
        \<and> (year d1 \<noteq> year d2 \<or> month d1 \<noteq> month d2 \<or> day d1 \<noteq> day d2) \<longrightarrow>
        complaint_number_text d1 j \<noteq> complaint_number_text d2 k)"
proof -
  have a: "distinct (map complaint_number (run_inserts reqs []))"
    by (rule run_inserts_distinct) simp
  have b: "None \<notin> set (map complaint_number (run_inserts reqs []))"
    by (rule run_inserts_not_null) simp
  have c: "complaint_number (trg_complaint_number today complaints new)
       = (if complaint_number new = None \<or> complaint_number new = Some []
          then Some (complaint_number_text today (length complaints))
          else complaint_number new)"
    by (simp add: trg_complaint_number_def trg_complaint_number_when_def
        generate_complaint_number_def)
  have d: "complaint_number new0 = Some s0 \<and> s0 \<noteq> []
        \<and> insert_complaint today new0 complaints = Inr complaints' \<longrightarrow>
        complaint_number (last complaints') = Some (take 20 s0)
        \<and> (length s0 \<le> 20 \<longrightarrow> complaint_number (last complaints') = Some s0)"
    using insert_complaint_stored_number [of new0 s0 today complaints complaints'] by simp
  have e: "valid_date d1 \<and> valid_date d2 \<and> date_le d1 d2 \<and> n < m \<and> m < 99999 \<longrightarrow>
        complaint_number_text d1 n < complaint_number_text d2 m
        \<and> complaint_number_text d1 n \<noteq> complaint_number_text d2 m"
    using complaint_number_text_less [of d1 d2 n m] by auto
  have f: "valid_date d1 \<and> valid_date d2
        \<and> (year d1 \<noteq> year d2 \<or> month d1 \<noteq> month d2 \<or> day d1 \<noteq> day d2) \<longrightarrow>
        complaint_number_text d1 j \<noteq> complaint_number_text d2 k"
    using complaint_number_text_date_neq [of d1 d2 j k] by blast
  from a b c d e f show ?thesis by (intro conjI)
qed

lemma complaint_number_text_first:
  "complaint_number_text \<lparr>year = 2026, month = 11, day = 2\<rparr> 0 = ''AQS-20261102-00001''"
  by (simp add: complaint_number_text_def to_char_YYYYMMDD_def
      zero_fill_def lpad_def text_of_nat.simps digit_char_def replicate_numeral)

theorem complaint_numbers_unique_witness:
  "complaint_number (seed_complaint_1 0) = Some ''AQS-20260225-00001''
   \<and> insert_complaint \<lparr>year = 2026, month = 11, day = 2\<rparr> (seed_complaint_1 0) []
       = Inr [seed_complaint_1 0]
   \<and> complaint_number (last [seed_complaint_1 0]) = Some ''AQS-20260225-00001''
   \<and> valid_date \<lparr>year = 2026, month = 11, day = 2\<rparr>
   \<and> valid_date \<lparr>year = 2026, month = 11, day = 3\<rparr>
   \<and> date_le \<lparr>year = 2026, month = 11, day = 2\<rparr> \<lparr>year = 2026, month = 11, day = 3\<rparr>
   \<and> complaint_number_text \<lparr>year = 2026, month = 11, day = 2\<rparr> 0
       < complaint_number_text \<lparr>year = 2026, month = 11, day = 3\<rparr> 1
   \<and> complaint_number_text \<lparr>year = 2026, month = 11, day = 2\<rparr> 7
       \<noteq> complaint_number_text \<lparr>year = 2026, month = 11, day = 3\<rparr> 7"
proof -
  have num: "complaint_number (seed_complaint_1 0) = Some ''AQS-20260225-00001''"
    by (simp add: seed_complaint_1_def)
  have ins: "insert_complaint \<lparr>year = 2026, month = 11, day = 2\<rparr> (seed_complaint_1 0) []
      = Inr [seed_complaint_1 0]"
    by (rule insert_seed_complaints)
  have v: "valid_date \<lparr>year = 2026, month = 11, day = 2\<rparr>"
      "valid_date \<lparr>year = 2026, month = 11, day = 3\<rparr>"
      "date_le \<lparr>year = 2026, month = 11, day = 2\<rparr> \<lparr>year = 2026, month = 11, day = 3\<rparr>"
    by (simp_all add: valid_date_def date_le_def)
  from complaint_numbers_unique
    [of "[]" "\<lparr>year = 2026, month = 11, day = 2\<rparr>" "[]" "seed_complaint_1 0"
      "seed_complaint_1 0" "''AQS-20260225-00001''" "[seed_complaint_1 0]"
      "\<lparr>year = 2026, month = 11, day = 2\<rparr>" "\<lparr>year = 2026, month = 11, day = 3\<rparr>" 0 1 7 7]
    num ins v
  show ?thesis by simp
qed

text \<open>A complaint stored later can hold a number that comes before an earlier one: on
  2 November 2026 a complaint without a number gets the generated one, and the first
  seed row, inserted after it with the number it supplies, is stored with that number.
  Generated numbers alone do not always differ or increase either: past 99999 rows
  \<^verbatim>\<open>LPAD\<close> cuts the sequence number to its first five digits, so the number
  generated for the 100000th row is the one generated for the 10000th row of the same
  day, and it comes before the number of the 99999th; and the number generated on the
  first day of the year 10000 comes before the one of the day before.\<close>

theorem later_number_not_after_counterexample:
  "map complaint_number
     (run_inserts
        [(\<lparr>year = 2026, month = 11, day = 2\<rparr>, complaint example_submitted),
         (\<lparr>year = 2026, month = 11, day = 2\<rparr>, seed_complaint_1 0)] [])
     = [Some ''AQS-20261102-00001'', Some ''AQS-20260225-00001'']
   \<and> ''AQS-20260225-00001'' < ''AQS-20261102-00001''
   \<and> complaint_number_text \<lparr>year = 2026, month = 11, day = 2\<rparr> 99998 = ''AQS-20261102-99999''
   \<and> complaint_number_text \<lparr>year = 2026, month = 11, day = 2\<rparr> 99999 = ''AQS-20261102-10000''
   \<and> complaint_number_text \<lparr>year = 2026, month = 11, day = 2\<rparr> 9999 = ''AQS-20261102-10000''
   \<and> ''AQS-20261102-10000'' < ''AQS-20261102-99999''
   \<and> complaint_number_text \<lparr>year = 9999, month = 12, day = 31\<rparr> 0 = ''AQS-99991231-00001''
   \<and> complaint_number_text \<lparr>year = 10000, month = 1, day = 1\<rparr> 1 = ''AQS-100000101-00002''
   \<and> ''AQS-100000101-00002'' < ''AQS-99991231-00001''"
proof -
  have first: "insert_complaint \<lparr>year = 2026, month = 11, day = 2\<rparr>
      (complaint example_submitted) []
      = Inr [(complaint example_submitted)\<lparr>complaint_number := Some ''AQS-20261102-00001''\<rparr>]"
    by (simp add: insert_complaint_def complaints_coerce_example trg_complaint_number_def
        trg_complaint_number_when_def generate_complaint_number_def
        complaint_number_text_first,
        simp add: example_submitted_def new_lifecycle_def complaints_default_row_def
        severity_score_check_def)
  have second: "insert_complaint \<lparr>year = 2026, month = 11, day = 2\<rparr> (seed_complaint_1 0)
      [(complaint example_submitted)\<lparr>complaint_number := Some ''AQS-20261102-00001''\<rparr>]
      = Inr [(complaint example_submitted)\<lparr>complaint_number := Some ''AQS-20261102-00001''\<rparr>,
             seed_complaint_1 0]"
    using insert_complaint_supplied [OF complaints_coerce_seed(1), of 0 "''AQS-20260225-00001''"
        "[(complaint example_submitted)\<lparr>complaint_number := Some ''AQS-20261102-00001''\<rparr>]"
        "\<lparr>year = 2026, month = 11, day = 2\<rparr>"]
    by (simp add: seed_complaint_1_def severity_score_check_def example_submitted_def
        new_lifecycle_def complaints_default_row_def)
  have stored: "map complaint_number
     (run_inserts
        [(\<lparr>year = 2026, month = 11, day = 2\<rparr>, complaint example_submitted),
         (\<lparr>year = 2026, month = 11, day = 2\<rparr>, seed_complaint_1 0)] [])
     = [Some ''AQS-20261102-00001'', Some ''AQS-20260225-00001'']"
    by (simp add: first second, simp add: seed_complaint_1_def)
  have generated:
    "complaint_number_text \<lparr>year = 2026, month = 11, day = 2\<rparr> 99998 = ''AQS-20261102-99999''
     \<and> complaint_number_text \<lparr>year = 2026, month = 11, day = 2\<rparr> 99999 = ''AQS-20261102-10000''
     \<and> complaint_number_text \<lparr>year = 2026, month = 11, day = 2\<rparr> 9999 = ''AQS-20261102-10000''
     \<and> complaint_number_text \<lparr>year = 9999, month = 12, day = 31\<rparr> 0 = ''AQS-99991231-00001''
     \<and> complaint_number_text \<lparr>year = 10000, month = 1, day = 1\<rparr> 1 = ''AQS-100000101-00002''"
    by (simp add: complaint_number_text_def to_char_YYYYMMDD_def
        zero_fill_def lpad_def text_of_nat.simps digit_char_def replicate_numeral)
  show ?thesis using stored generated by simp
qed

end
